theory Spec2Isabelle
  imports Complex_Main "HOL-Library.Sublist"
begin

section \<open>Data model\<close>

text \<open>
  The contract PDF builder of the repository (\<^verbatim>\<open>contractPdfBuilder.ts\<close>): the input
  records, the canvas it draws on, and the four rendering phases. Coordinates are
  JavaScript numbers in the source; they are modelled as \<^typ>\<open>real\<close>, that is, without
  rounding, not-a-number or infinities.
\<close>

text \<open>
  The payment amount is a JavaScript number that is formatted, not computed with. A finite
  number is modelled by its sign bit and its magnitude, the magnitude being the decimal
  the number prints as (the shortest decimal that reads back as the same double), which
  is the decimal the runtime's formatter rounds. Negative zero is the number with the
  sign bit set and magnitude 0. Not-a-number and the infinities are not modelled.
\<close>

record Number =
  negative :: bool
  magnitude :: real

record ContractData =
  clientName :: string
  clientAddress :: string
  clientCity :: string
  clientEmail :: string
  providerName :: string
  providerAddress :: string
  providerCity :: string
  contractNumber :: string
  effectiveDate :: string
  projectDescription :: string
  paymentAmount :: Number
  paymentTerms :: string

record ContractSection =
  title :: string
  items :: "string list"

datatype PageSize = A4 | LETTER

text \<open>\<^verbatim>\<open>PdfOptions\<close>: every field is optional.\<close>

record PdfOptions =
  includeSignatureMarkers_opt :: "bool option"
  margin_opt :: "real option"
  pageSize_opt :: "PageSize option"

text \<open>\<^verbatim>\<open>Required<PdfOptions>\<close>, as the constructor stores it in \<^verbatim>\<open>this.options\<close>.\<close>

record Options =
  includeSignatureMarkers :: bool
  margin :: real
  pageSize :: PageSize

definition resolveOptions :: "PdfOptions \<Rightarrow> Options" where
  "resolveOptions opts =
     \<lparr>includeSignatureMarkers =
        (case includeSignatureMarkers_opt opts of None \<Rightarrow> True | Some b \<Rightarrow> b),
      margin = (case margin_opt opts of None \<Rightarrow> 72 | Some m \<Rightarrow> m),
      pageSize = (case pageSize_opt opts of None \<Rightarrow> A4 | Some s \<Rightarrow> s)\<rparr>"

section \<open>The canvas\<close>

text \<open>
  The PDFKit document is the canvas. The builder reads and writes its cursor
  (\<^verbatim>\<open>doc.x\<close>, \<^verbatim>\<open>doc.y\<close>), reads the page geometry, and sets font, size and fill
  colour. Everything it draws is appended to \<open>drawn\<close>: a text with the position and the
  style in effect when it is drawn, a stroked path with the fill colour in effect, and a
  page added by a call of \<^verbatim>\<open>addPage\<close>. A page that the library starts by itself while it
  flows a long text is not a call of the builder: it shows only in where the cursor is
  afterwards.
\<close>

record TextOptions =
  opt_width :: "real option"
  opt_align :: "string option"
  opt_indent :: "real option"
  opt_lineGap :: "real option"

datatype draw =
    Text string real real TextOptions string real string
  | Stroke "(real \<times> real) list" string
  | NewPage

record canvas =
  doc_x :: real
  doc_y :: real
  page_width :: real
  page_height :: real
  margins_left :: real
  margins_right :: real
  margins_top :: real
  font_size :: real
  font_name :: string
  fill_color :: string
  path :: "(real \<times> real) list"
  drawn :: "draw list"

text \<open>
  What the library computes from font metrics is not in the repository and is taken as a
  parameter: the cursor after a text has been flowed from the current position
  (wrapping, line gap, continuation on a following page), the cursor after
  \<^verbatim>\<open>moveDown(n)\<close>, and the dimensions of a page size.
\<close>

record backend =
  textEnd :: "canvas \<Rightarrow> string \<Rightarrow> TextOptions \<Rightarrow> real"
  moveDownEnd :: "canvas \<Rightarrow> real \<Rightarrow> real"
  pageDims :: "PageSize \<Rightarrow> real \<times> real"

definition noOptions :: TextOptions where
  "noOptions = \<lparr>opt_width = None, opt_align = None, opt_indent = None, opt_lineGap = None\<rparr>"

definition alignOnly :: "string \<Rightarrow> TextOptions" where
  "alignOnly a = noOptions\<lparr>opt_align := Some a\<rparr>"

definition widthOnly :: "real \<Rightarrow> TextOptions" where
  "widthOnly w = noOptions\<lparr>opt_width := Some w\<rparr>"

definition fontSize :: "real \<Rightarrow> canvas \<Rightarrow> canvas" where
  "fontSize s c = c\<lparr>font_size := s\<rparr>"

definition font :: "string \<Rightarrow> canvas \<Rightarrow> canvas" where
  "font f c = c\<lparr>font_name := f\<rparr>"

definition fillColor :: "string \<Rightarrow> canvas \<Rightarrow> canvas" where
  "fillColor col c = c\<lparr>fill_color := col\<rparr>"

text \<open>\<^verbatim>\<open>doc.text(str, options)\<close>: drawn at the cursor, which then moves below the text.\<close>

definition text_cur :: "backend \<Rightarrow> string \<Rightarrow> TextOptions \<Rightarrow> canvas \<Rightarrow> canvas" where
  "text_cur B str opts c =
     c\<lparr>drawn := drawn c @
            [Text str (doc_x c) (doc_y c) opts (font_name c) (font_size c) (fill_color c)],
       doc_y := textEnd B c str opts\<rparr>"

text \<open>\<^verbatim>\<open>doc.text(str, x, y, options)\<close>: the cursor is first moved to the given position.\<close>

definition text_at :: "backend \<Rightarrow> string \<Rightarrow> real \<Rightarrow> real \<Rightarrow> TextOptions \<Rightarrow> canvas \<Rightarrow> canvas" where
  "text_at B str px py opts c = text_cur B str opts (c\<lparr>doc_x := px, doc_y := py\<rparr>)"

definition moveDown :: "backend \<Rightarrow> real \<Rightarrow> canvas \<Rightarrow> canvas" where
  "moveDown B n c = c\<lparr>doc_y := moveDownEnd B c n\<rparr>"

text \<open>\<^verbatim>\<open>doc.addPage()\<close>: a new page of the same geometry; the cursor goes to its top left.\<close>

definition addPage :: "canvas \<Rightarrow> canvas" where
  "addPage c = c\<lparr>doc_x := margins_left c, doc_y := margins_top c, drawn := drawn c @ [NewPage]\<rparr>"

definition moveTo :: "real \<Rightarrow> real \<Rightarrow> canvas \<Rightarrow> canvas" where
  "moveTo px py c = c\<lparr>path := [(px, py)]\<rparr>"

definition lineTo :: "real \<Rightarrow> real \<Rightarrow> canvas \<Rightarrow> canvas" where
  "lineTo px py c = c\<lparr>path := path c @ [(px, py)]\<rparr>"

definition stroke :: "canvas \<Rightarrow> canvas" where
  "stroke c = c\<lparr>drawn := drawn c @ [Stroke (path c) (fill_color c)], path := []\<rparr>"

text \<open>The assignment \<^verbatim>\<open>this.doc.y = v\<close>.\<close>

definition setY :: "real \<Rightarrow> canvas \<Rightarrow> canvas" where
  "setY v c = c\<lparr>doc_y := v\<rparr>"

text \<open>
  \<^verbatim>\<open>new PDFDocument({margin, size, bufferPages: true})\<close>: the first page exists, the
  cursor is at its top left, and the library's defaults are Helvetica at 12 points with
  black fill.
\<close>

definition newDocument :: "backend \<Rightarrow> Options \<Rightarrow> canvas" where
  "newDocument B opts =
     \<lparr>doc_x = margin opts, doc_y = margin opts,
      page_width = fst (pageDims B (pageSize opts)),
      page_height = snd (pageDims B (pageSize opts)),
      margins_left = margin opts, margins_right = margin opts, margins_top = margin opts,
      font_size = 12, font_name = ''Helvetica'', fill_color = ''#000000'',
      path = [], drawn = []\<rparr>"

section \<open>Strings\<close>

text \<open>A section or item number in a template literal: the decimal digits of the number.\<close>

definition digit :: "nat \<Rightarrow> char" where
  "digit n = ''0123456789'' ! (n mod 10)"

fun showNat :: "nat \<Rightarrow> string" where
  "showNat n = (if n < 10 then [digit n] else showNat (n div 10) @ [digit (n mod 10)])"

declare showNat.simps [simp del]

text \<open>The euro sign U+20AC of the Compensation template, as its UTF-8 bytes.\<close>

definition euro :: string where
  "euro = [CHR 0xE2, CHR 0x82, CHR 0xAC]"

text \<open>The double quote that three literals of the header and preamble contain.\<close>

definition dq :: string where
  "dq = [CHR 0x22]"

text \<open>
  \<^verbatim>\<open>paymentAmount.toLocaleString("nl-NL", { minimumFractionDigits: 2 })\<close>. The built-in
  formats a decimal number with at least the two fraction digits asked for and at most
  three, the default maximum of the decimal style: the magnitude is rounded to
  thousandths, half away from zero, and a third fraction digit is printed unless it is
  zero. The Dutch locale groups the integer digits in threes with a full stop and writes
  a comma before the fraction; a number whose sign bit is set starts with a minus sign.
\<close>

definition pad3 :: "nat \<Rightarrow> string" where
  "pad3 n = [digit (n div 100), digit (n div 10 mod 10), digit (n mod 10)]"

fun groupThousands :: "nat \<Rightarrow> string" where
  "groupThousands n =
     (if n < 1000 then showNat n else groupThousands (n div 1000) @ ''.'' @ pad3 (n mod 1000))"

declare groupThousands.simps [simp del]

definition fractionDigits :: "nat \<Rightarrow> string" where
  "fractionDigits f =
     [digit (f div 100), digit (f div 10 mod 10)] @ (if f mod 10 = 0 then [] else [digit (f mod 10)])"

definition thousandths :: "Number \<Rightarrow> nat" where
  "thousandths v = nat \<lfloor>\<bar>magnitude v\<bar> * 1000 + 1 / 2\<rfloor>"

definition toLocaleString :: "Number \<Rightarrow> string" where
  "toLocaleString v =
     (let n = thousandths v in
      (if negative v then ''-'' else []) @ groupThousands (n div 1000) @ '','' @ fractionDigits (n mod 1000))"

section \<open>Section model builder\<close>

definition buildSections :: "ContractData \<Rightarrow> ContractSection list" where
  "buildSections d = [
    \<lparr>title = ''SCOPE OF SERVICES'',
     items = [
       ''The Provider agrees to perform the following services: '' @ projectDescription d,
       ''All services shall be performed in a professional and workmanlike manner consistent with industry standards.'',
       ''The Provider shall dedicate sufficient resources and qualified personnel to complete the services in a timely manner.'',
       ''Any changes to the scope of services must be agreed upon in writing by both parties.''
     ]\<rparr>,
    \<lparr>title = ''COMPENSATION'',
     items = [
       ''The Client agrees to pay the Provider a total amount of '' @ euro @ toLocaleString (paymentAmount d) @ '' (excluding VAT) for the services described herein.'',
       ''Payment terms: '' @ paymentTerms d,
       ''All invoices shall be paid within thirty (30) days of receipt unless otherwise specified.'',
       ''Late payments shall accrue interest at a rate of 1.5% per month or the maximum rate permitted by law, whichever is lower.''
     ]\<rparr>,
    \<lparr>title = ''TERM AND TERMINATION'',
     items = [
       ''This Agreement shall commence on the Effective Date and shall continue until all services have been completed and accepted by the Client.'',
       ''Either party may terminate this Agreement for convenience upon thirty (30) days prior written notice to the other party.'',
       ''Either party may terminate this Agreement immediately upon written notice if the other party materially breaches any provision of this Agreement and fails to cure such breach within fifteen (15) days of receiving written notice thereof.'',
       ''Upon termination, the Client shall pay the Provider for all services satisfactorily rendered up to the date of termination.''
     ]\<rparr>,
    \<lparr>title = ''CONFIDENTIALITY'',
     items = [
       ''Each party agrees to maintain the confidentiality of any proprietary or confidential information received from the other party during the term of this Agreement.'',
       ''Confidential information shall not include information that: (a) is or becomes publicly available through no fault of the receiving party; (b) was rightfully in the receiving party's possession prior to disclosure; or (c) is independently developed by the receiving party.'',
       ''This confidentiality obligation shall survive the termination of this Agreement for a period of three (3) years.''
     ]\<rparr>,
    \<lparr>title = ''INTELLECTUAL PROPERTY'',
     items = [
       ''All intellectual property rights in any work product created by the Provider specifically for the Client under this Agreement shall be assigned to the Client upon full payment.'',
       ''The Provider retains all rights to pre-existing materials, tools, and methodologies used in performing the services.'',
       ''The Provider grants the Client a non-exclusive, perpetual license to use any pre-existing materials incorporated into the deliverables.''
     ]\<rparr>,
    \<lparr>title = ''LIMITATION OF LIABILITY'',
     items = [
       ''Neither party shall be liable to the other for any indirect, incidental, special, consequential, or punitive damages arising out of or related to this Agreement.'',
       ''The Provider's total aggregate liability under this Agreement shall not exceed the total amount paid by the Client under this Agreement.'',
       ''The limitations set forth in this section shall not apply to breaches of confidentiality obligations or gross negligence or willful misconduct.''
     ]\<rparr>,
    \<lparr>title = ''GENERAL PROVISIONS'',
     items = [
       ''This Agreement constitutes the entire agreement between the parties with respect to the subject matter hereof and supersedes all prior negotiations, representations, or agreements relating thereto.'',
       ''This Agreement shall be governed by and construed in accordance with the laws of the Netherlands, without regard to its conflict of laws principles.'',
       ''Any disputes arising out of or in connection with this Agreement shall be submitted to the exclusive jurisdiction of the courts of Amsterdam, the Netherlands.'',
       ''Any amendments or modifications to this Agreement must be made in writing and signed by both parties.'',
       ''If any provision of this Agreement is held to be invalid or unenforceable, the remaining provisions shall continue in full force and effect.''
     ]\<rparr>
  ]"


section \<open>Layout engine\<close>

definition renderHeader :: "backend \<Rightarrow> ContractData \<Rightarrow> canvas \<Rightarrow> canvas" where
  "renderHeader B d c =
     (let c = fontSize 20 c;
          c = font ''Helvetica-Bold'' c;
          c = text_cur B ''SERVICE AGREEMENT'' (alignOnly ''center'') c;
          c = moveDown B 0.5 c;
          c = fontSize 10 c;
          c = font ''Helvetica'' c;
          c = fillColor ''#666666'' c;
          c = text_cur B (''Contract No: '' @ contractNumber d) (alignOnly ''center'') c;
          c = fillColor ''#000000'' c;
          c = moveDown B 2 c
      in c)"

definition renderPreamble :: "backend \<Rightarrow> ContractData \<Rightarrow> canvas \<Rightarrow> canvas" where
  "renderPreamble B d c =
     (let c = fontSize 11 c;
          c = font ''Helvetica'' c;
          c = text_cur B
                (''This Service Agreement ('' @ dq @ ''Agreement'' @ dq @ '') is entered into as of ''
                 @ effectiveDate d @ '' by and between:'') noOptions c;
          c = moveDown B 1 c;
          c = font ''Helvetica-Bold'' c;
          c = text_cur B (clientName d) noOptions c;
          c = font ''Helvetica'' c;
          c = text_cur B (clientAddress d) noOptions c;
          c = text_cur B (clientCity d) noOptions c;
          c = text_cur B (''Email: '' @ clientEmail d) noOptions c;
          c = font ''Helvetica-Oblique'' c;
          c = text_cur B (''(hereinafter referred to as the '' @ dq @ ''Client'' @ dq @ '')'') noOptions c;
          c = moveDown B 1 c;
          c = font ''Helvetica'' c;
          c = text_cur B ''and'' (alignOnly ''center'') c;
          c = moveDown B 1 c;
          c = font ''Helvetica-Bold'' c;
          c = text_cur B (providerName d) noOptions c;
          c = font ''Helvetica'' c;
          c = text_cur B (providerAddress d) noOptions c;
          c = text_cur B (providerCity d) noOptions c;
          c = font ''Helvetica-Oblique'' c;
          c = text_cur B (''(hereinafter referred to as the '' @ dq @ ''Provider'' @ dq @ '')'') noOptions c;
          c = moveDown B 2 c;
          c = font ''Helvetica'' c;
          c = text_cur B
                (''NOW, THEREFORE, in consideration of the mutual covenants and agreements set forth herein, ''
                 @ ''and for other good and valuable consideration, the receipt and sufficiency of which are hereby ''
                 @ ''acknowledged, the parties agree as follows:'') noOptions c;
          c = moveDown B 2 c
      in c)"

definition itemOptions :: TextOptions where
  "itemOptions =
     \<lparr>opt_width = None, opt_align = Some ''justify'', opt_indent = Some 25, opt_lineGap = Some 2\<rparr>"

text \<open>The label of an item, \<^verbatim>\<open>`${sectionNumber}.${itemNumber}`\<close>.\<close>

definition itemLabel :: "nat \<Rightarrow> nat \<Rightarrow> string" where
  "itemLabel sectionNumber itemNumber = showNat sectionNumber @ ''.'' @ showNat itemNumber"

text \<open>The loop over \<^verbatim>\<open>section.items\<close> of \<^verbatim>\<open>renderSection\<close>, from a given item number.\<close>

fun renderItems :: "backend \<Rightarrow> nat \<Rightarrow> nat \<Rightarrow> string list \<Rightarrow> canvas \<Rightarrow> canvas" where
  "renderItems B sectionNumber itemNumber [] c = c"
| "renderItems B sectionNumber itemNumber (item # rest) c =
     (let c = text_cur B (itemLabel sectionNumber itemNumber @ ''  '' @ item) itemOptions c;
          c = moveDown B 0.5 c
      in renderItems B sectionNumber (itemNumber + 1) rest c)"

definition renderSection :: "backend \<Rightarrow> Options \<Rightarrow> nat \<Rightarrow> ContractSection \<Rightarrow> canvas \<Rightarrow> canvas" where
  "renderSection B opts sectionNumber section c =
     (let c = (if doc_y c > page_height c - margin opts - 100 then addPage c else c);
          c = fontSize 12 c;
          c = font ''Helvetica-Bold'' c;
          c = text_cur B (showNat sectionNumber @ ''. '' @ title section) noOptions c;
          c = moveDown B 0.5 c;
          c = fontSize 11 c;
          c = font ''Helvetica'' c;
          c = renderItems B sectionNumber 1 (items section) c;
          c = moveDown B 0.5 c
      in c)"

text \<open>The loop of \<^verbatim>\<open>renderSections\<close>, from a given section number.\<close>

fun renderSectionList :: "backend \<Rightarrow> Options \<Rightarrow> nat \<Rightarrow> ContractSection list \<Rightarrow> canvas \<Rightarrow> canvas" where
  "renderSectionList B opts sectionNumber [] c = c"
| "renderSectionList B opts sectionNumber (section # rest) c =
     renderSectionList B opts (sectionNumber + 1) rest (renderSection B opts sectionNumber section c)"

definition renderSections :: "backend \<Rightarrow> Options \<Rightarrow> ContractData \<Rightarrow> canvas \<Rightarrow> canvas" where
  "renderSections B opts d c = renderSectionList B opts 1 (buildSections d) c"

definition renderSignatureRow ::
  "backend \<Rightarrow> Options \<Rightarrow> real \<Rightarrow> real \<Rightarrow> real \<Rightarrow> string \<Rightarrow> string \<Rightarrow> string \<Rightarrow> canvas \<Rightarrow> canvas" where
  "renderSignatureRow B opts px py w label name signatureMarker c =
     (let c = fontSize 10 c;
          c = font ''Helvetica'' c;
          c = text_at B label px py (widthOnly w) c;
          c = (if includeSignatureMarkers opts
               then (let c = fontSize 1 c;
                         c = fillColor ''#ffffff'' c;
                         c = text_at B signatureMarker px (py + 25) noOptions c;
                         c = fillColor ''#000000'' c
                     in c)
               else c);
          lineY = py + 85;
          c = moveTo px lineY c;
          c = lineTo (px + w - 20) lineY c;
          c = stroke c;
          c = fontSize 10 c;
          c = font ''Helvetica'' c;
          c = text_at B (''Name: '' @ name) px (lineY + 8) (widthOnly w) c;
          c = text_at B ''Title: _______________________'' px (lineY + 23) (widthOnly w) c;
          c = text_at B ''Date: _______________________'' px (lineY + 38) (widthOnly w) c
      in c)"

text \<open>
  \<^verbatim>\<open>renderSignatureBlock\<close> in its two parts: the page check and the closing sentence
  (up to \<^verbatim>\<open>moveDown(3)\<close>), and the two stacked rows, which start at the cursor the
  first part leaves.
\<close>

definition signatureIntro :: "backend \<Rightarrow> Options \<Rightarrow> canvas \<Rightarrow> canvas" where
  "signatureIntro B opts c =
     (let c = (if doc_y c > page_height c - margin opts - 400 then addPage c else c);
          c = moveDown B 2 c;
          c = fontSize 11 c;
          c = font ''Helvetica'' c;
          c = text_cur B
                ''IN WITNESS WHEREOF, the parties hereto have executed this Agreement as of the date first written above.''
                (alignOnly ''justify'') c;
          c = moveDown B 3 c
      in c)"

definition signatureRows :: "backend \<Rightarrow> Options \<Rightarrow> ContractData \<Rightarrow> canvas \<Rightarrow> canvas" where
  "signatureRows B opts d c =
     (let pageWidth = page_width c - margins_left c - margins_right c;
          signatureWidth = pageWidth * 0.75;
          leftX = margins_left c;
          clientStartY = doc_y c;
          c = renderSignatureRow B opts leftX clientStartY signatureWidth
                ''CLIENT'' (clientName d) ''{{ClientSignature}}'' c;
          c = setY (clientStartY + 170) c;
          providerStartY = doc_y c;
          c = renderSignatureRow B opts leftX providerStartY signatureWidth
                ''PROVIDER'' (providerName d) ''{{ProviderSignature}}'' c;
          c = setY (providerStartY + 140) c
      in c)"

definition renderSignatureBlock :: "backend \<Rightarrow> Options \<Rightarrow> ContractData \<Rightarrow> canvas \<Rightarrow> canvas" where
  "renderSignatureBlock B opts d c = signatureRows B opts d (signatureIntro B opts c)"

section \<open>Document assembler\<close>

text \<open>The draw calls of \<^verbatim>\<open>build\<close>, in the order of its \<^verbatim>\<open>try\<close> block.\<close>

definition renderDocument :: "backend \<Rightarrow> Options \<Rightarrow> ContractData \<Rightarrow> canvas \<Rightarrow> canvas" where
  "renderDocument B opts d c =
     (let c = renderHeader B d c;
          c = renderPreamble B d c;
          c = renderSections B opts d c;
          c = renderSignatureBlock B opts d c
      in c)"

text \<open>
  The promise of \<^verbatim>\<open>build\<close>. Its three listeners are registered before the first draw
  call: \<^verbatim>\<open>data\<close> appends a chunk, \<^verbatim>\<open>end\<close> resolves with the concatenated chunks,
  \<^verbatim>\<open>error\<close> rejects; the \<^verbatim>\<open>catch\<close> clause rejects with what a draw call has
  thrown. A promise settles once: \<^verbatim>\<open>resolve\<close> and \<^verbatim>\<open>reject\<close> do nothing on a
  settled promise.

  What the backend does during one build is a run: the notifications it delivers while
  the draw calls are issued, the exception that a draw call (or \<^verbatim>\<open>doc.end()\<close>) throws,
  if any, the notifications delivered after the \<^verbatim>\<open>try\<close> block, and whether the
  stream finally emits \<^verbatim>\<open>end\<close>. That event is the last one of a readable stream, so
  it closes the run; a backend that never emits it leaves the promise pending.
\<close>

type_synonym buffer = "char list"

datatype notification = Data buffer | Error string

datatype outcome = Pending | Resolved buffer | Rejected string

record promise =
  chunks :: "buffer list"
  settled :: outcome

record backend_run =
  during_draw :: "notification list"
  thrown :: "string option"
  after_draw :: "notification list"
  completes :: bool

definition resolve :: "buffer \<Rightarrow> promise \<Rightarrow> promise" where
  "resolve buf p = (if settled p = Pending then p\<lparr>settled := Resolved buf\<rparr> else p)"

definition reject :: "string \<Rightarrow> promise \<Rightarrow> promise" where
  "reject e p = (if settled p = Pending then p\<lparr>settled := Rejected e\<rparr> else p)"

fun notify :: "promise \<Rightarrow> notification \<Rightarrow> promise" where
  "notify p (Data chunk) = p\<lparr>chunks := chunks p @ [chunk]\<rparr>"
| "notify p (Error e) = reject e p"

definition onEnd :: "promise \<Rightarrow> promise" where
  "onEnd p = resolve (concat (chunks p)) p"

definition build :: "backend_run \<Rightarrow> outcome" where
  "build r =
     (let p = \<lparr>chunks = [], settled = Pending\<rparr>;
          p = foldl notify p (during_draw r);
          p = (case thrown r of Some e \<Rightarrow> reject e p | None \<Rightarrow> p);
          p = foldl notify p (after_draw r);
          p = (if completes r then onEnd p else p)
      in settled p)"

section \<open>What a document shows\<close>

text \<open>The strings of the text operations of a draw list, in drawing order.\<close>

fun texts :: "draw list \<Rightarrow> string list" where
  "texts [] = []"
| "texts (Text s px py opts f sz col # ds) = s # texts ds"
| "texts (Stroke p col # ds) = texts ds"
| "texts (NewPage # ds) = texts ds"

text \<open>
  The draws made with a fill colour other than black, in drawing order: the string of a
  text (none for a stroked path) and the colour.
\<close>

fun offBlack :: "draw list \<Rightarrow> (string option \<times> string) list" where
  "offBlack [] = []"
| "offBlack (Text s px py opts f sz col # ds) =
     (if col = ''#000000'' then offBlack ds else (Some s, col) # offBlack ds)"
| "offBlack (Stroke p col # ds) =
     (if col = ''#000000'' then offBlack ds else (None, col) # offBlack ds)"
| "offBlack (NewPage # ds) = offBlack ds"

text \<open>
  The numbering the specification asks for, written from positions alone: the section at
  position \<open>i\<close> (counted from \<open>n\<close>) is headed \<open>i. title\<close>, and its item at position \<open>j\<close>
  (counted from 1) is labelled \<open>i.j\<close>.
\<close>

definition numberedTexts :: "nat \<Rightarrow> ContractSection list \<Rightarrow> string list" where
  "numberedTexts n ss =
     concat (map (\<lambda>(i, s). (showNat i @ ''. '' @ title s) #
                    map (\<lambda>(j, item). showNat i @ ''.'' @ showNat j @ ''  '' @ item) (enumerate 1 (items s)))
                 (enumerate n ss))"

text \<open>
  The signature row the specification describes, as a list of draws: the role label at
  \<open>(leftX, startY)\<close>; when markers are enabled, the anchor token at \<open>startY + 25\<close> in white
  at size 1; the rule at \<open>startY + 85\<close> from \<open>leftX\<close> over \<open>signatureWidth - 20\<close>; the name,
  title and date lines at \<open>startY + 93\<close>, \<open>+ 108\<close> and \<open>+ 123\<close>. \<open>fill0\<close> is the fill colour
  in effect when the row starts; after a marker the fill is black.
\<close>

definition signatureRowDraws ::
  "bool \<Rightarrow> string \<Rightarrow> real \<Rightarrow> real \<Rightarrow> real \<Rightarrow> string \<Rightarrow> string \<Rightarrow> string \<Rightarrow> draw list" where
  "signatureRowDraws markers fill0 leftX startY signatureWidth label name token =
     (let fill1 = (if markers then ''#000000'' else fill0) in
      [Text label leftX startY (widthOnly signatureWidth) ''Helvetica'' 10 fill0] @
      (if markers then [Text token leftX (startY + 25) noOptions ''Helvetica'' 1 ''#ffffff''] else []) @
      [Stroke [(leftX, startY + 85), (leftX + signatureWidth - 20, startY + 85)] fill1,
       Text (''Name: '' @ name) leftX (startY + 93) (widthOnly signatureWidth) ''Helvetica'' 10 fill1,
       Text ''Title: _______________________'' leftX (startY + 108) (widthOnly signatureWidth)
         ''Helvetica'' 10 fill1,
       Text ''Date: _______________________'' leftX (startY + 123) (widthOnly signatureWidth)
         ''Helvetica'' 10 fill1])"

text \<open>The two anchor tokens, and the string fields of the contract data.\<close>

definition anchor :: "string \<Rightarrow> bool" where
  "anchor tok = (tok = ''{{ClientSignature}}'' \<or> tok = ''{{ProviderSignature}}'')"

definition dataStrings :: "ContractData \<Rightarrow> string list" where
  "dataStrings d =
     [clientName d, clientAddress d, clientCity d, clientEmail d, providerName d,
      providerAddress d, providerCity d, contractNumber d, effectiveDate d,
      projectDescription d, paymentTerms d]"

definition braceFree :: "string \<Rightarrow> bool" where
  "braceFree s = (CHR ''{'' \<notin> set s \<and> CHR ''}'' \<notin> set s)"

section \<open>Sample inputs\<close>

text \<open>
  A backend with simple metrics for the worked examples: a text advances the cursor by
  the font size, \<^verbatim>\<open>moveDown(n)\<close> by \<open>n\<close> times the font size; the page sizes are
  PDFKit's A4 and Letter in points.
\<close>

definition sampleBackend :: backend where
  "sampleBackend =
     \<lparr>textEnd = (\<lambda>c str opts. doc_y c + font_size c),
      moveDownEnd = (\<lambda>c n. doc_y c + n * font_size c),
      pageDims = (\<lambda>s. case s of A4 \<Rightarrow> (595.28, 841.89) | LETTER \<Rightarrow> (612, 792))\<rparr>"

text \<open>The options of a call that passes none: markers on, margin 72, A4.\<close>

definition defaultOptions :: Options where
  "defaultOptions =
     resolveOptions \<lparr>includeSignatureMarkers_opt = None, margin_opt = None, pageSize_opt = None\<rparr>"

text \<open>A sample contract; the amount is the one of the repository's demo script.\<close>

definition sampleData :: ContractData where
  "sampleData =
     \<lparr>clientName = ''Acme Corporation B.V.'', clientAddress = ''Herengracht 100'',
      clientCity = ''1015 BS Amsterdam'', clientEmail = ''legal@acme.example'',
      providerName = ''TechSolutions B.V.'', providerAddress = ''Zuidas 200'',
      providerCity = ''1082 MD Amsterdam'', contractNumber = ''SA-2024-001'',
      effectiveDate = ''1 January 2024'',
      projectDescription = ''Development of a custom web application.'',
      paymentAmount = \<lparr>negative = False, magnitude = 25000\<rparr>,
      paymentTerms = ''50% upfront, 50% on delivery.''\<rparr>"

definition sampleSection :: ContractSection where
  "sampleSection = \<lparr>title = ''SCOPE'', items = [''First clause.'', ''Second clause.'']\<rparr>"

text \<open>The sample contract with every field changed that no section quotes.\<close>

definition swappedData :: ContractData where
  "swappedData = sampleData\<lparr>clientName := ''Another Client Ltd.'', clientEmail := ''x@y.example'',
      providerName := ''Another Provider'', contractNumber := ''C-2'', effectiveDate := ''2 May 2025'',
      clientAddress := ''A'', clientCity := ''B'', providerAddress := ''C'', providerCity := ''D''\<rparr>"

definition otherSection :: ContractSection where
  "otherSection = \<lparr>title = ''FEES'', items = [''Only clause.'']\<rparr>"

section \<open>Views of a built document and of a build\<close>

text \<open>
  The canvas after the draw calls of a build: the document of the constructor, then the
  four phases.
\<close>

definition builtDocument :: "backend \<Rightarrow> Options \<Rightarrow> ContractData \<Rightarrow> canvas" where
  "builtDocument B opts d = renderDocument B opts d (newDocument B opts)"

text \<open>The same options with \<^verbatim>\<open>includeSignatureMarkers\<close> set.\<close>

definition withMarkers :: "bool \<Rightarrow> Options \<Rightarrow> Options" where
  "withMarkers b opts = opts\<lparr>includeSignatureMarkers := b\<rparr>"

text \<open>
  A marker draw: a text at size 1 in white. Nothing else in the document is drawn in
  that style.
\<close>

fun markerDraw :: "draw \<Rightarrow> bool" where
  "markerDraw (Text s px py opts f sz col) = (sz = 1 \<and> col = ''#ffffff'')"
| "markerDraw (Stroke p col) = False"
| "markerDraw NewPage = False"

text \<open>The number of characters after the last comma of a formatted number.\<close>

definition fractionLength :: "string \<Rightarrow> nat" where
  "fractionLength s = length (takeWhile (\<lambda>ch. ch \<noteq> CHR '','') (rev s))"

text \<open>
  The amount in cents, for a number that is a whole number of cents: its magnitude times
  100.
\<close>

definition cents :: "Number \<Rightarrow> nat" where
  "cents v = nat \<lfloor>\<bar>magnitude v\<bar> * 100\<rfloor>"

text \<open>
  The errors that reach the promise during a run, in the order in which they reach it,
  and the chunks delivered.
\<close>

fun failures :: "notification list \<Rightarrow> string list" where
  "failures [] = []"
| "failures (Data chunk # ns) = failures ns"
| "failures (Error e # ns) = e # failures ns"

fun delivered :: "notification list \<Rightarrow> buffer list" where
  "delivered [] = []"
| "delivered (Data chunk # ns) = chunk # delivered ns"
| "delivered (Error e # ns) = delivered ns"

definition failuresOf :: "backend_run \<Rightarrow> string list" where
  "failuresOf r =
     failures (during_draw r) @ (case thrown r of Some e \<Rightarrow> [e] | None \<Rightarrow> []) @ failures (after_draw r)"

text \<open>
  Four runs: an error while drawing, a draw call that throws, an error after
  \<^verbatim>\<open>doc.end()\<close>, and a clean run.
\<close>

definition failingRun :: backend_run where
  "failingRun = \<lparr>during_draw = [Data ''%PDF'', Error ''out of memory'', Data ''-1.3''],
     thrown = None, after_draw = [Data ''%%EOF''], completes = True\<rparr>"

definition throwingRun :: backend_run where
  "throwingRun = \<lparr>during_draw = [Data ''%PDF''], thrown = Some ''invalid argument'',
     after_draw = [Data ''-1.3''], completes = False\<rparr>"

definition lateFailingRun :: backend_run where
  "lateFailingRun = \<lparr>during_draw = [Data ''%PDF''], thrown = None,
     after_draw = [Data ''-1.3'', Error ''write failed''], completes = True\<rparr>"

definition cleanRun :: backend_run where
  "cleanRun = \<lparr>during_draw = [Data ''%PDF''], thrown = None,
     after_draw = [Data ''-1.3'', Data ''%%EOF''], completes = True\<rparr>"

text \<open>A contract with an amount below the cent, and one whose client name is an anchor token.\<close>

definition subCentData :: ContractData where
  "subCentData =
     sampleData\<lparr>paymentAmount := \<lparr>negative = False, magnitude = 1234.125\<rparr>\<rparr>"

definition injectedData :: ContractData where
  "injectedData = sampleData\<lparr>clientName := ''{{ClientSignature}}''\<rparr>"

section \<open>The canvas operations, field by field\<close>

lemmas canvas_ops = fontSize_def font_def fillColor_def text_cur_def text_at_def moveDown_def
  addPage_def moveTo_def lineTo_def stroke_def setY_def

lemma texts_append [simp]: "texts (xs @ ys) = texts xs @ texts ys"
  by (induction xs rule: texts.induct) simp_all

lemma offBlack_append [simp]: "offBlack (xs @ ys) = offBlack xs @ offBlack ys"
  by (induction xs rule: offBlack.induct) simp_all

lemma drawn_same:
  "drawn (fontSize s c) = drawn c"
  "drawn (font f c) = drawn c"
  "drawn (fillColor col c) = drawn c"
  "drawn (moveDown B n c) = drawn c"
  "drawn (moveTo px py c) = drawn c"
  "drawn (lineTo px py c) = drawn c"
  "drawn (setY v c) = drawn c"
  by (simp_all add: canvas_ops)

lemma drawn_texts:
  "texts (drawn (text_cur B str opts c)) = texts (drawn c) @ [str]"
  "texts (drawn (text_at B str px py opts c)) = texts (drawn c) @ [str]"
  "texts (drawn (addPage c)) = texts (drawn c)"
  "texts (drawn (stroke c)) = texts (drawn c)"
  by (simp_all add: canvas_ops)

lemma fill_color_same:
  "fill_color (fontSize s c) = fill_color c"
  "fill_color (font f c) = fill_color c"
  "fill_color (fillColor col c) = col"
  "fill_color (text_cur B str opts c) = fill_color c"
  "fill_color (text_at B str px py opts c) = fill_color c"
  "fill_color (moveDown B n c) = fill_color c"
  "fill_color (addPage c) = fill_color c"
  "fill_color (moveTo px py c) = fill_color c"
  "fill_color (lineTo px py c) = fill_color c"
  "fill_color (stroke c) = fill_color c"
  "fill_color (setY v c) = fill_color c"
  by (simp_all add: canvas_ops)

lemma drawn_offBlack:
  "offBlack (drawn (text_cur B str opts c)) =
     offBlack (drawn c) @ (if fill_color c = ''#000000'' then [] else [(Some str, fill_color c)])"
  "offBlack (drawn (text_at B str px py opts c)) =
     offBlack (drawn c) @ (if fill_color c = ''#000000'' then [] else [(Some str, fill_color c)])"
  "offBlack (drawn (addPage c)) = offBlack (drawn c)"
  "offBlack (drawn (stroke c)) =
     offBlack (drawn c) @ (if fill_color c = ''#000000'' then [] else [(None, fill_color c)])"
  by (simp_all add: canvas_ops)

lemma geometry_same:
  "page_width (fontSize s c) = page_width c" "page_height (fontSize s c) = page_height c"
  "margins_left (fontSize s c) = margins_left c" "margins_right (fontSize s c) = margins_right c"
  "page_width (font f c) = page_width c" "page_height (font f c) = page_height c"
  "margins_left (font f c) = margins_left c" "margins_right (font f c) = margins_right c"
  "page_width (fillColor col c) = page_width c" "page_height (fillColor col c) = page_height c"
  "margins_left (fillColor col c) = margins_left c" "margins_right (fillColor col c) = margins_right c"
  "page_width (text_cur B str opts c) = page_width c" "page_height (text_cur B str opts c) = page_height c"
  "margins_left (text_cur B str opts c) = margins_left c"
  "margins_right (text_cur B str opts c) = margins_right c"
  "page_width (moveDown B n c) = page_width c" "page_height (moveDown B n c) = page_height c"
  "margins_left (moveDown B n c) = margins_left c" "margins_right (moveDown B n c) = margins_right c"
  "page_width (addPage c) = page_width c" "page_height (addPage c) = page_height c"
  "margins_left (addPage c) = margins_left c" "margins_right (addPage c) = margins_right c"
  by (simp_all add: canvas_ops)

lemma renderHeader_texts:
  "texts (drawn (renderHeader B d c)) =
     texts (drawn c) @ [''SERVICE AGREEMENT'', ''Contract No: '' @ contractNumber d]"
  by (simp add: renderHeader_def Let_def drawn_same drawn_texts del: append.simps)

lemma renderPreamble_texts:
  "texts (drawn (renderPreamble B d c)) =
     texts (drawn c) @
     [''This Service Agreement ('' @ dq @ ''Agreement'' @ dq @ '') is entered into as of ''
        @ effectiveDate d @ '' by and between:'',
      clientName d, clientAddress d, clientCity d, ''Email: '' @ clientEmail d,
      ''(hereinafter referred to as the '' @ dq @ ''Client'' @ dq @ '')'',
      ''and'',
      providerName d, providerAddress d, providerCity d,
      ''(hereinafter referred to as the '' @ dq @ ''Provider'' @ dq @ '')'',
      ''NOW, THEREFORE, in consideration of the mutual covenants and agreements set forth herein, ''
        @ ''and for other good and valuable consideration, the receipt and sufficiency of which are hereby ''
        @ ''acknowledged, the parties agree as follows:'']"
  by (simp add: renderPreamble_def Let_def drawn_same drawn_texts del: append.simps)

lemma renderHeader_fill: "fill_color (renderHeader B d c) = ''#000000''"
  by (simp add: renderHeader_def Let_def fill_color_same)

lemma renderPreamble_fill: "fill_color (renderPreamble B d c) = fill_color c"
  by (simp add: renderPreamble_def Let_def fill_color_same)

lemma renderHeader_offBlack:
  "offBlack (drawn (renderHeader B d c)) =
     offBlack (drawn c) @
     (if fill_color c = ''#000000'' then [] else [(Some ''SERVICE AGREEMENT'', fill_color c)]) @
     [(Some (''Contract No: '' @ contractNumber d), ''#666666'')]"
  by (simp add: renderHeader_def Let_def drawn_same drawn_offBlack fill_color_same del: append.simps)

lemma renderPreamble_offBlack:
  "fill_color c = ''#000000'' \<Longrightarrow> offBlack (drawn (renderPreamble B d c)) = offBlack (drawn c)"
  by (simp add: renderPreamble_def Let_def drawn_same drawn_offBlack fill_color_same del: append.simps)

section \<open>The section loops\<close>

lemma renderItems_texts:
  "texts (drawn (renderItems B sn k its c)) =
     texts (drawn c) @ map (\<lambda>(j, item). showNat sn @ ''.'' @ showNat j @ ''  '' @ item) (enumerate k its)"
  by (induction its arbitrary: k c) (simp_all add: Let_def drawn_same drawn_texts itemLabel_def)

lemma renderSection_texts:
  "texts (drawn (renderSection B opts n s c)) =
     texts (drawn c) @ (showNat n @ ''. '' @ title s) #
       map (\<lambda>(j, item). showNat n @ ''.'' @ showNat j @ ''  '' @ item) (enumerate 1 (items s))"
  by (simp add: renderSection_def Let_def renderItems_texts drawn_same drawn_texts)

lemma renderSectionList_texts:
  "texts (drawn (renderSectionList B opts n ss c)) = texts (drawn c) @ numberedTexts n ss"
  by (induction ss arbitrary: n c) (simp_all add: numberedTexts_def renderSection_texts)

lemma renderItems_frame:
  "fill_color (renderItems B sn k its c) = fill_color c"
  "page_width (renderItems B sn k its c) = page_width c"
  "page_height (renderItems B sn k its c) = page_height c"
  "margins_left (renderItems B sn k its c) = margins_left c"
  "margins_right (renderItems B sn k its c) = margins_right c"
  by (induction its arbitrary: k c) (simp_all add: Let_def fill_color_same geometry_same)

lemma renderSection_frame:
  "fill_color (renderSection B opts n s c) = fill_color c"
  "page_width (renderSection B opts n s c) = page_width c"
  "page_height (renderSection B opts n s c) = page_height c"
  "margins_left (renderSection B opts n s c) = margins_left c"
  "margins_right (renderSection B opts n s c) = margins_right c"
  by (simp_all add: renderSection_def Let_def renderItems_frame fill_color_same geometry_same)

lemma renderSectionList_frame:
  "fill_color (renderSectionList B opts n ss c) = fill_color c"
  "page_width (renderSectionList B opts n ss c) = page_width c"
  "page_height (renderSectionList B opts n ss c) = page_height c"
  "margins_left (renderSectionList B opts n ss c) = margins_left c"
  "margins_right (renderSectionList B opts n ss c) = margins_right c"
  by (induction ss arbitrary: n c) (simp_all add: renderSection_frame)

lemma renderItems_offBlack:
  "fill_color c = ''#000000'' \<Longrightarrow> offBlack (drawn (renderItems B sn k its c)) = offBlack (drawn c)"
  by (induction its arbitrary: k c) (simp_all add: Let_def drawn_same drawn_offBlack fill_color_same)

lemma renderSection_offBlack:
  "fill_color c = ''#000000'' \<Longrightarrow> offBlack (drawn (renderSection B opts n s c)) = offBlack (drawn c)"
  by (simp add: renderSection_def Let_def renderItems_offBlack drawn_same drawn_offBlack fill_color_same)

lemma renderSectionList_offBlack:
  "fill_color c = ''#000000'' \<Longrightarrow>
     offBlack (drawn (renderSectionList B opts n ss c)) = offBlack (drawn c)"
  by (induction ss arbitrary: n c) (simp_all add: renderSection_offBlack renderSection_frame)

lemma renderSectionList_margin:
  "margin o1 = margin o2 \<Longrightarrow> renderSectionList B o1 n ss c = renderSectionList B o2 n ss c"
  by (induction ss arbitrary: n c) (simp_all add: renderSection_def)

lemma renderItems_no_page:
  "\<exists>rest. drawn (renderItems B sn k its c) = drawn c @ rest \<and> NewPage \<notin> set rest"
proof (induction its arbitrary: k c)
  case Nil
  show ?case by simp
next
  case (Cons item its)
  define c1 where "c1 = moveDown B 0.5 (text_cur B (itemLabel sn k @ ''  '' @ item) itemOptions c)"
  obtain rest where r: "drawn (renderItems B sn (k + 1) its c1) = drawn c1 @ rest"
    and n: "NewPage \<notin> set rest"
    using Cons.IH by blast
  have "drawn c1 = drawn c @
      [Text (itemLabel sn k @ ''  '' @ item) (doc_x c) (doc_y c) itemOptions
         (font_name c) (font_size c) (fill_color c)]"
    by (simp add: c1_def moveDown_def text_cur_def)
  with r n show ?case by (simp add: Let_def c1_def)
qed

section \<open>The signature rows\<close>

lemma renderSignatureRow_drawn:
  "drawn (renderSignatureRow B opts px py w label name tok c) =
     drawn c @ signatureRowDraws (includeSignatureMarkers opts) (fill_color c) px py w label name tok"
  by (simp add: renderSignatureRow_def signatureRowDraws_def Let_def canvas_ops)

lemma renderSignatureRow_frame:
  "page_width (renderSignatureRow B opts px py w label name tok c) = page_width c"
  "page_height (renderSignatureRow B opts px py w label name tok c) = page_height c"
  "margins_left (renderSignatureRow B opts px py w label name tok c) = margins_left c"
  "margins_right (renderSignatureRow B opts px py w label name tok c) = margins_right c"
  "fill_color (renderSignatureRow B opts px py w label name tok c) =
     (if includeSignatureMarkers opts then ''#000000'' else fill_color c)"
  by (simp_all add: renderSignatureRow_def Let_def canvas_ops)

lemma signatureRows_drawn:
  "drawn (signatureRows B opts d c) =
     drawn c @
     signatureRowDraws (includeSignatureMarkers opts) (fill_color c) (margins_left c) (doc_y c)
       ((page_width c - margins_left c - margins_right c) * 0.75)
       ''CLIENT'' (clientName d) ''{{ClientSignature}}'' @
     signatureRowDraws (includeSignatureMarkers opts)
       (if includeSignatureMarkers opts then ''#000000'' else fill_color c)
       (margins_left c) (doc_y c + 170)
       ((page_width c - margins_left c - margins_right c) * 0.75)
       ''PROVIDER'' (providerName d) ''{{ProviderSignature}}''"
  by (simp add: signatureRows_def Let_def renderSignatureRow_drawn renderSignatureRow_frame setY_def)

lemma signatureRows_y: "doc_y (signatureRows B opts d c) = doc_y c + 170 + 140"
  by (simp add: signatureRows_def Let_def setY_def)

lemma signatureIntro_texts:
  "texts (drawn (signatureIntro B opts c)) =
     texts (drawn c) @
     [''IN WITNESS WHEREOF, the parties hereto have executed this Agreement as of the date first written above.'']"
  by (simp add: signatureIntro_def Let_def drawn_same drawn_texts)

lemma signatureIntro_fill: "fill_color (signatureIntro B opts c) = fill_color c"
  by (simp add: signatureIntro_def Let_def fill_color_same)

lemma signatureIntro_offBlack:
  "fill_color c = ''#000000'' \<Longrightarrow> offBlack (drawn (signatureIntro B opts c)) = offBlack (drawn c)"
  by (simp add: signatureIntro_def Let_def drawn_same drawn_offBlack fill_color_same)

lemma signatureIntro_margin:
  "margin o1 = margin o2 \<Longrightarrow> signatureIntro B o1 c = signatureIntro B o2 c"
  by (simp add: signatureIntro_def)

lemma signatureRowDraws_texts:
  "texts (signatureRowDraws m f0 px py w label name tok) =
     label # (if m then [tok] else []) @
     [''Name: '' @ name, ''Title: _______________________'', ''Date: _______________________'']"
  by (simp add: signatureRowDraws_def Let_def del: append.simps)

lemma signatureRowDraws_offBlack:
  "offBlack (signatureRowDraws m ''#000000'' px py w label name tok) =
     (if m then [(Some tok, ''#ffffff'')] else [])"
  by (simp add: signatureRowDraws_def Let_def)

section \<open>Sample evaluations\<close>

lemma sample_eval:
  "doc_y (setY v (newDocument sampleBackend defaultOptions)) = v"
  "doc_x (setY v (newDocument sampleBackend defaultOptions)) = 72"
  "page_height (setY v (newDocument sampleBackend defaultOptions)) = 841.89"
  "page_width (setY v (newDocument sampleBackend defaultOptions)) = 595.28"
  "margins_left (setY v (newDocument sampleBackend defaultOptions)) = 72"
  "margins_right (setY v (newDocument sampleBackend defaultOptions)) = 72"
  "margins_top (setY v (newDocument sampleBackend defaultOptions)) = 72"
  "fill_color (setY v (newDocument sampleBackend defaultOptions)) = ''#000000''"
  "drawn (setY v (newDocument sampleBackend defaultOptions)) = []"
  "margin defaultOptions = 72"
  "includeSignatureMarkers defaultOptions = True"
  by (simp_all add: setY_def newDocument_def sampleBackend_def defaultOptions_def resolveOptions_def)

section \<open>Anchor tokens in strings\<close>

lemma braceFree_simps [simp]:
  "braceFree []"
  "braceFree (ch # s) = (ch \<noteq> CHR ''{'' \<and> ch \<noteq> CHR ''}'' \<and> braceFree s)"
  "braceFree (s @ t) = (braceFree s \<and> braceFree t)"
  by (auto simp: braceFree_def)

lemma sublist_skip_char:
  assumes "tok \<noteq> []" "hd tok \<noteq> ch"
  shows "sublist tok (ch # s) = sublist tok s"
  using assms by (cases tok) (auto simp: sublist_Cons_right)

lemma sublist_skip_prefix:
  assumes "tok \<noteq> []" "hd tok \<notin> set pre"
  shows "sublist tok (pre @ s) = sublist tok s"
  using assms by (induction pre) (auto simp: sublist_skip_char)

lemma sublist_skip_suffix:
  assumes "tok \<noteq> []" "last tok \<notin> set post"
  shows "sublist tok (s @ post) = sublist tok s"
proof -
  have "sublist tok (s @ post) = sublist (rev tok) (rev post @ rev s)"
    by (metis rev_append sublist_rev)
  also have "\<dots> = sublist (rev tok) (rev s)"
    using assms by (intro sublist_skip_prefix) (auto simp: hd_rev)
  finally show ?thesis by simp
qed

lemma anchor_skip_char:
  "anchor tok \<Longrightarrow> ch \<noteq> CHR ''{'' \<Longrightarrow> sublist tok (ch # s) = sublist tok s"
  by (rule sublist_skip_char) (auto simp: anchor_def)

lemma anchor_skip_prefix:
  "anchor tok \<Longrightarrow> braceFree pre \<Longrightarrow> sublist tok (pre @ s) = sublist tok s"
  by (rule sublist_skip_prefix) (auto simp: anchor_def braceFree_def)

lemma anchor_skip_suffix:
  "anchor tok \<Longrightarrow> braceFree post \<Longrightarrow> sublist tok (s @ post) = sublist tok s"
  by (rule sublist_skip_suffix) (auto simp: anchor_def braceFree_def)

lemma anchor_braceFree: "anchor tok \<Longrightarrow> braceFree s \<Longrightarrow> \<not> sublist tok s"
  using sublist_skip_prefix [of tok s "[]"] by (auto simp: anchor_def braceFree_def)

lemma anchor_self:
  "anchor tok \<Longrightarrow> sublist tok ''{{ClientSignature}}'' = (tok = ''{{ClientSignature}}'')"
  "anchor tok \<Longrightarrow> sublist tok ''{{ProviderSignature}}'' = (tok = ''{{ProviderSignature}}'')"
proof -
  have b: "\<not> sublist ''{{ProviderSignature}}'' ''{{ClientSignature}}''" by code_simp
  have c: "\<not> sublist ''{{ClientSignature}}'' ''{{ProviderSignature}}''" by code_simp
  show "anchor tok \<Longrightarrow> sublist tok ''{{ClientSignature}}'' = (tok = ''{{ClientSignature}}'')"
    using b unfolding anchor_def by auto
  show "anchor tok \<Longrightarrow> sublist tok ''{{ProviderSignature}}'' = (tok = ''{{ProviderSignature}}'')"
    using c unfolding anchor_def by auto
qed

lemma enumerate_snd: "(i, x) \<in> set (enumerate n xs) \<Longrightarrow> x \<in> set xs"
  by (metis enumerate_eq_zip set_zip_rightD)

lemma digit_in: "digit n \<in> set ''0123456789''"
  unfolding digit_def by (rule nth_mem) simp

lemma digit_braceFree [simp]: "digit n \<noteq> CHR ''{''" "digit n \<noteq> CHR ''}''"
  using digit_in [of n] by auto

lemma showNat_braceFree [simp]: "braceFree (showNat n)"
proof (induction n rule: showNat.induct)
  case (1 n)
  then show ?case by (subst showNat.simps) simp
qed

lemma pad3_braceFree [simp]: "braceFree (pad3 n)"
  by (simp add: pad3_def)

lemma groupThousands_braceFree [simp]: "braceFree (groupThousands n)"
proof (induction n rule: groupThousands.induct)
  case (1 n)
  then show ?case by (subst groupThousands.simps) simp
qed

lemma fractionDigits_braceFree [simp]: "braceFree (fractionDigits f)"
  by (simp add: fractionDigits_def)

lemma toLocaleString_braceFree [simp]: "braceFree (toLocaleString v)"
  by (simp add: toLocaleString_def Let_def)

lemma numberedTexts_anchor:
  assumes "anchor tok"
    and "\<forall>s\<in>set ss. \<not> sublist tok (title s) \<and> (\<forall>item\<in>set (items s). \<not> sublist tok item)"
  shows "filter (sublist tok) (numberedTexts n ss) = []"
  using assms
  by (auto simp: numberedTexts_def filter_empty_conv anchor_skip_prefix anchor_skip_char
      dest!: enumerate_snd)

lemma buildSections_anchor:
  assumes "anchor tok" "\<not> sublist tok (projectDescription d)" "\<not> sublist tok (paymentTerms d)"
  shows "\<forall>s\<in>set (buildSections d).
           \<not> sublist tok (title s) \<and> (\<forall>item\<in>set (items s). \<not> sublist tok item)"
  using assms
  by (simp add: buildSections_def euro_def anchor_skip_prefix anchor_braceFree del: append.simps)

lemma header_anchor:
  assumes "anchor tok" "\<not> sublist tok (contractNumber d)"
  shows "filter (sublist tok) [''SERVICE AGREEMENT'', ''Contract No: '' @ contractNumber d] = []"
  using assms by (simp add: anchor_skip_prefix anchor_braceFree del: append.simps)

lemma preamble_anchor:
  assumes "anchor tok" "\<forall>f\<in>set (dataStrings d). \<not> sublist tok f"
  shows "filter (sublist tok)
     [''This Service Agreement ('' @ dq @ ''Agreement'' @ dq @ '') is entered into as of ''
        @ effectiveDate d @ '' by and between:'',
      clientName d, clientAddress d, clientCity d, ''Email: '' @ clientEmail d,
      ''(hereinafter referred to as the '' @ dq @ ''Client'' @ dq @ '')'',
      ''and'',
      providerName d, providerAddress d, providerCity d,
      ''(hereinafter referred to as the '' @ dq @ ''Provider'' @ dq @ '')'',
      ''NOW, THEREFORE, in consideration of the mutual covenants and agreements set forth herein, ''
        @ ''and for other good and valuable consideration, the receipt and sufficiency of which are hereby ''
        @ ''acknowledged, the parties agree as follows:''] = []"
  using assms
  by (simp add: dataStrings_def dq_def anchor_skip_prefix anchor_skip_suffix anchor_braceFree
      del: append.simps)

lemma rows_anchor:
  assumes "anchor tok" "\<not> sublist tok name"
  shows "filter (sublist tok) (texts (signatureRowDraws m f0 px py w label name tok')) =
     (if sublist tok label then [label] else []) @ (if m \<and> sublist tok tok' then [tok'] else [])"
  using assms
  by (simp add: signatureRowDraws_texts anchor_skip_prefix anchor_braceFree del: append.simps)

section \<open>The document up to the signature rows\<close>

lemma renderDocument_rows:
  "renderDocument B opts d c =
     signatureRows B opts d
       (signatureIntro B opts (renderSections B opts d (renderPreamble B d (renderHeader B d c))))"
  by (simp add: renderDocument_def Let_def renderSignatureBlock_def)

lemma before_rows_markers:
  "signatureIntro B (withMarkers b opts) (renderSections B (withMarkers b opts) d c) =
     signatureIntro B opts (renderSections B opts d c)"
proof -
  have m: "margin (withMarkers b opts) = margin opts" by (simp add: withMarkers_def)
  show ?thesis
    by (simp add: renderSections_def renderSectionList_margin [OF m] signatureIntro_margin [OF m])
qed

lemma before_rows_fill:
  "fill_color (signatureIntro B opts (renderSections B opts d (renderPreamble B d (renderHeader B d c))))
     = ''#000000''"
  by (simp add: signatureIntro_fill renderSections_def renderSectionList_frame renderPreamble_fill
      renderHeader_fill)

lemma before_rows_offBlack:
  "offBlack (drawn (signatureIntro B opts (renderSections B opts d
       (renderPreamble B d (renderHeader B d c))))) = offBlack (drawn (renderHeader B d c))"
  by (simp add: signatureIntro_offBlack renderSections_def renderSectionList_offBlack
      renderSectionList_frame renderPreamble_offBlack renderPreamble_fill renderHeader_fill)

lemma renderHeader_margins: "margins_left (renderHeader B d c) = margins_left c"
  by (simp add: renderHeader_def Let_def geometry_same)

lemma renderPreamble_margins: "margins_left (renderPreamble B d c) = margins_left c"
  by (simp add: renderPreamble_def Let_def geometry_same)

lemma signatureIntro_margins: "margins_left (signatureIntro B opts c) = margins_left c"
  by (simp add: signatureIntro_def Let_def geometry_same)

lemma before_rows_margins:
  "margins_left (signatureIntro B opts (renderSections B opts d
       (renderPreamble B d (renderHeader B d c)))) = margins_left c"
  by (simp add: signatureIntro_margins renderSections_def renderSectionList_frame
      renderPreamble_margins renderHeader_margins)

lemma no_white_no_marker:
  "\<forall>e\<in>set (offBlack ds). snd e \<noteq> ''#ffffff'' \<Longrightarrow>
     filter markerDraw ds = [] \<and> filter (\<lambda>dr. \<not> markerDraw dr) ds = ds"
  by (induction ds rule: offBlack.induct) (simp_all split: if_splits)

lemma rows_markers:
  "filter markerDraw (signatureRowDraws m ''#000000'' px py w label name tok) =
     (if m then [Text tok px (py + 25) noOptions ''Helvetica'' 1 ''#ffffff''] else [])"
  "filter (\<lambda>dr. \<not> markerDraw dr) (signatureRowDraws m ''#000000'' px py w label name tok) =
     signatureRowDraws False ''#000000'' px py w label name tok"
  by (simp_all add: signatureRowDraws_def Let_def)

lemma renderDocument_anchor:
  assumes "anchor tok" "\<forall>f\<in>set (dataStrings d). \<not> sublist tok f"
  shows "filter (sublist tok) (texts (drawn (renderDocument B opts d c))) =
     filter (sublist tok) (texts (drawn c)) @ (if includeSignatureMarkers opts then [tok] else [])"
proof -
  define c1 where "c1 = renderHeader B d c"
  define c2 where "c2 = renderPreamble B d c1"
  define c3 where "c3 = renderSections B opts d c2"
  define c4 where "c4 = signatureIntro B opts c3"
  from assms(2) have fields: "\<not> sublist tok (contractNumber d)" "\<not> sublist tok (clientName d)"
    "\<not> sublist tok (providerName d)" "\<not> sublist tok (projectDescription d)"
    "\<not> sublist tok (paymentTerms d)"
    by (simp_all add: dataStrings_def)
  have t1: "filter (sublist tok) (texts (drawn c1)) = filter (sublist tok) (texts (drawn c))"
    unfolding c1_def renderHeader_texts filter_append
    by (simp only: header_anchor [OF assms(1) fields(1)] append_Nil2)
  have t2: "filter (sublist tok) (texts (drawn c2)) = filter (sublist tok) (texts (drawn c1))"
    unfolding c2_def renderPreamble_texts filter_append
    by (simp only: preamble_anchor [OF assms] append_Nil2)
  have t3: "filter (sublist tok) (texts (drawn c3)) = filter (sublist tok) (texts (drawn c2))"
    unfolding c3_def renderSections_def renderSectionList_texts filter_append
    by (simp only: numberedTexts_anchor [OF assms(1) buildSections_anchor [OF assms(1) fields(4,5)]]
        append_Nil2)
  have t4: "filter (sublist tok) (texts (drawn c4)) = filter (sublist tok) (texts (drawn c3))"
    unfolding c4_def signatureIntro_texts filter_append
    using assms(1) by (simp add: anchor_braceFree)
  have labels: "\<not> sublist tok ''CLIENT''" "\<not> sublist tok ''PROVIDER''"
    using assms(1) by (simp_all add: anchor_braceFree)
  have toks: "(if includeSignatureMarkers opts \<and> tok = ''{{ClientSignature}}''
               then [''{{ClientSignature}}''] else []) @
              (if includeSignatureMarkers opts \<and> tok = ''{{ProviderSignature}}''
               then [''{{ProviderSignature}}''] else []) =
              (if includeSignatureMarkers opts then [tok] else [])"
    using assms(1) by (auto simp: anchor_def)
  have "filter (sublist tok) (texts (drawn (signatureRows B opts d c4))) =
      filter (sublist tok) (texts (drawn c4)) @ (if includeSignatureMarkers opts then [tok] else [])"
    unfolding signatureRows_drawn texts_append filter_append
    by (simp only: rows_anchor [OF assms(1) fields(2)] rows_anchor [OF assms(1) fields(3)]
        labels anchor_self [OF assms(1)] if_False append_Nil toks)
  then show ?thesis
    by (simp only: renderDocument_rows c4_def [symmetric] c3_def [symmetric] c2_def [symmetric]
        c1_def [symmetric] t4 t3 t2 t1)
qed

lemma builtDocument_rows:
  "builtDocument B (withMarkers b opts) d =
     signatureRows B (withMarkers b opts) d
       (signatureIntro B opts (renderSections B opts d
          (renderPreamble B d (renderHeader B d (newDocument B opts)))))"
proof -
  have "newDocument B (withMarkers b opts) = newDocument B opts"
    by (simp add: newDocument_def withMarkers_def)
  then show ?thesis
    by (simp add: builtDocument_def renderDocument_rows before_rows_markers)
qed

lemma before_rows_no_white:
  "\<forall>e\<in>set (offBlack (drawn (signatureIntro B opts (renderSections B opts d
       (renderPreamble B d (renderHeader B d (newDocument B opts))))))). snd e \<noteq> ''#ffffff''"
proof -
  have "fill_color (newDocument B opts) = ''#000000''" "drawn (newDocument B opts) = []"
    by (simp_all add: newDocument_def)
  then show ?thesis
    by (simp add: before_rows_offBlack renderHeader_offBlack)
qed

lemma sample_clean:
  "\<forall>f\<in>set (dataStrings sampleData). \<not> sublist ''{{ClientSignature}}'' f"
  unfolding sampleData_def dataStrings_def by code_simp

lemma renderDocument_offBlack:
  "offBlack (drawn (renderDocument B opts d c)) =
     offBlack (drawn c) @
     (if fill_color c = ''#000000'' then [] else [(Some ''SERVICE AGREEMENT'', fill_color c)]) @
     (Some (''Contract No: '' @ contractNumber d), ''#666666'') #
     (if includeSignatureMarkers opts
      then [(Some ''{{ClientSignature}}'', ''#ffffff''), (Some ''{{ProviderSignature}}'', ''#ffffff'')]
      else [])"
proof -
  define c1 where "c1 = renderHeader B d c"
  define c2 where "c2 = renderPreamble B d c1"
  define c3 where "c3 = renderSections B opts d c2"
  define c4 where "c4 = signatureIntro B opts c3"
  have f1: "fill_color c1 = ''#000000''" by (simp add: c1_def renderHeader_fill)
  have f2: "fill_color c2 = ''#000000''" by (simp add: c2_def renderPreamble_fill f1)
  have f3: "fill_color c3 = ''#000000''"
    by (simp add: c3_def renderSections_def renderSectionList_frame f2)
  have f4: "fill_color c4 = ''#000000''" by (simp add: c4_def signatureIntro_fill f3)
  have o2: "offBlack (drawn c2) = offBlack (drawn c1)"
    by (simp add: c2_def renderPreamble_offBlack f1)
  have o3: "offBlack (drawn c3) = offBlack (drawn c2)"
    by (simp add: c3_def renderSections_def renderSectionList_offBlack f2)
  have o4: "offBlack (drawn c4) = offBlack (drawn c3)"
    by (simp add: c4_def signatureIntro_offBlack f3)
  have "renderDocument B opts d c = signatureRows B opts d c4"
    by (simp add: renderDocument_def Let_def renderSignatureBlock_def c1_def c2_def c3_def c4_def)
  then have "offBlack (drawn (renderDocument B opts d c)) =
      offBlack (drawn c1) @
      (if includeSignatureMarkers opts
       then [(Some ''{{ClientSignature}}'', ''#ffffff''), (Some ''{{ProviderSignature}}'', ''#ffffff'')]
       else [])"
    by (simp add: signatureRows_drawn f4 signatureRowDraws_offBlack o4 o3 o2)
  then show ?thesis by (simp add: c1_def renderHeader_offBlack)
qed

section \<open>The promise\<close>

lemma foldl_notify:
  "foldl notify p ns =
     p\<lparr>chunks := chunks p @ delivered ns,
       settled := (if settled p = Pending
                   then (case failures ns of [] \<Rightarrow> Pending | e # es \<Rightarrow> Rejected e)
                   else settled p)\<rparr>"
proof (induction ns arbitrary: p)
  case Nil
  show ?case by simp
next
  case (Cons n ns)
  show ?case by (cases n) (simp_all add: Cons.IH reject_def)
qed

lemma build_outcome:
  "build r =
     (case failuresOf r of
        e # es \<Rightarrow> Rejected e
      | [] \<Rightarrow> if completes r
              then Resolved (concat (delivered (during_draw r) @ delivered (after_draw r)))
              else Pending)"
proof (cases "failures (during_draw r)")
  case Cons
  then show ?thesis
    by (simp add: build_def Let_def foldl_notify failuresOf_def reject_def onEnd_def resolve_def
        split: option.splits list.splits)
next
  case n1: Nil
  show ?thesis
  proof (cases "thrown r")
    case Some
    with n1 show ?thesis
      by (simp add: build_def Let_def foldl_notify failuresOf_def reject_def onEnd_def resolve_def
          split: list.splits)
  next
    case None
    with n1 show ?thesis
      by (simp add: build_def Let_def foldl_notify failuresOf_def reject_def onEnd_def resolve_def
          split: list.splits)
  qed
qed

section \<open>The formatted amount\<close>

lemma fractionDigits_length: "length (fractionDigits f) = (if f mod 10 = 0 then 2 else 3)"
  by (simp add: fractionDigits_def)

lemma digit_not_comma: "digit n \<noteq> CHR '',''"
  using digit_in [of n] by auto

lemma fractionDigits_no_comma: "CHR '','' \<notin> set (fractionDigits f)"
  using digit_not_comma [of "f div 100"] digit_not_comma [of "f div 10 mod 10"]
    digit_not_comma [of "f mod 10"]
  by (simp add: fractionDigits_def)

lemma fractionLength_append:
  "CHR '','' \<notin> set fp \<Longrightarrow> fractionLength (ip @ CHR '','' # fp) = length fp"
proof -
  assume "CHR '','' \<notin> set fp"
  then have "takeWhile (\<lambda>ch. ch \<noteq> CHR '','') (rev fp @ CHR '','' # rev ip) = rev fp"
    by (subst takeWhile_append2) auto
  then show ?thesis by (simp add: fractionLength_def)
qed

lemma toLocaleString_parts:
  "toLocaleString v =
     ((if negative v then ''-'' else []) @ groupThousands (thousandths v div 1000)) @
       CHR '','' # fractionDigits (thousandths v mod 1000)"
  by (simp add: toLocaleString_def Let_def)

lemma fractionLength_toLocaleString:
  "fractionLength (toLocaleString v) = (if thousandths v mod 10 = 0 then 2 else 3)"
proof -
  have "fractionLength (toLocaleString v) = length (fractionDigits (thousandths v mod 1000))"
    by (subst toLocaleString_parts) (rule fractionLength_append [OF fractionDigits_no_comma])
  also have "\<dots> = (if thousandths v mod 1000 mod 10 = 0 then 2 else 3)"
    by (rule fractionDigits_length)
  also have "thousandths v mod 1000 mod 10 = thousandths v mod 10"
    by (rule mod_mod_cancel) simp
  finally show ?thesis .
qed

lemma whole_cents:
  assumes "magnitude v * 100 \<in> \<int>"
  shows "thousandths v = 10 * cents v"
proof -
  from assms obtain k :: int where k: "magnitude v * 100 = of_int k" by (auto elim: Ints_cases)
  have c: "\<bar>magnitude v\<bar> * 100 = of_int \<bar>k\<bar>"
    using k by (simp add: abs_mult [symmetric])
  then have "\<bar>magnitude v\<bar> * 1000 = of_int (10 * \<bar>k\<bar>)" by simp
  then have "\<lfloor>\<bar>magnitude v\<bar> * 1000 + 1 / 2\<rfloor> = 10 * \<bar>k\<bar>"
    by (simp only: floor_eq_iff) simp
  moreover from c have "\<lfloor>\<bar>magnitude v\<bar> * 100\<rfloor> = \<bar>k\<bar>" by (simp only: floor_of_int)
  ultimately show ?thesis
    by (simp add: thousandths_def cents_def nat_mult_distrib)
qed

lemma showNat_step: "10 \<le> n \<Longrightarrow> showNat n = showNat (n div 10) @ [digit (n mod 10)]"
  by (subst showNat.simps) simp

lemma digit_zero: "digit 0 = CHR ''0''"
  by (simp add: digit_def)

lemma two_digits:
  assumes "k < 100"
  shows "(if k < 10 then ''0'' else []) @ showNat k = [digit (k div 10), digit (k mod 10)]"
proof (cases "k < 10")
  case True
  then show ?thesis by (subst showNat.simps) (simp add: digit_zero)
next
  case False
  with assms have "k div 10 < 10" by simp
  then have "showNat (k div 10) = [digit (k div 10)]" by (subst showNat.simps) simp
  with False show ?thesis by (simp add: showNat_step)
qed

lemma cents_fraction:
  "fractionDigits (10 * c mod 1000) =
     (if c mod 100 < 10 then ''0'' else []) @ showNat (c mod 100)"
proof -
  have m: "10 * c mod 1000 = 10 * (c mod 100)"
    using mult_mod_right [of 10 c 100] by simp
  have a: "10 * (c mod 100) div 100 = c mod 100 div 10"
    using div_mult2_eq [of "10 * (c mod 100)" 10 10] by simp
  have b: "c mod 100 mod 10 = c mod 10" by (rule mod_mod_cancel) simp
  have "fractionDigits (10 * c mod 1000) = [digit (c mod 100 div 10), digit (c mod 100 mod 10)]"
    by (simp add: fractionDigits_def m a)
  also have "\<dots> = (if c mod 100 < 10 then ''0'' else []) @ showNat (c mod 100)"
    by (rule two_digits [symmetric]) simp
  finally show ?thesis .
qed

lemma cents_whole: "10 * c div 1000 = (c::nat) div 100"
  using div_mult2_eq [of "10 * c" 10 100] by simp

lemma toLocaleString_cents:
  assumes "magnitude v * 100 \<in> \<int>"
  shows "toLocaleString v =
     (if negative v then ''-'' else []) @ groupThousands (cents v div 100) @ '','' @
     (if cents v mod 100 < 10 then ''0'' else []) @ showNat (cents v mod 100)"
  by (simp add: toLocaleString_def Let_def whole_cents [OF assms] cents_fraction cents_whole
      del: append.simps)

lemma compensation_item:
  "hd (items (buildSections d ! 1)) =
     ''The Client agrees to pay the Provider a total amount of '' @ euro
       @ toLocaleString (paymentAmount d) @ '' (excluding VAT) for the services described herein.''"
  by (simp add: buildSections_def)

lemma digit_not_stop: "digit n \<noteq> CHR ''.''"
  using digit_in [of n] by auto

lemma showNat_not_stop: "CHR ''.'' \<notin> set (showNat n)"
proof (induction n rule: showNat.induct)
  case (1 n)
  then show ?case by (subst showNat.simps) (simp add: digit_not_stop [symmetric])
qed

lemma thousand_hundreds: "(n::nat) mod 1000 div 100 = n div 100 mod 10"
proof -
  have "n mod (100 * 10) = 100 * (n div 100 mod 10) + n mod 100" by (rule mod_mult2_eq)
  then have "n mod 1000 div 100 = (100 * (n div 100 mod 10) + n mod 100) div 100" by simp
  also have "\<dots> = n div 100 mod 10" by simp
  finally show ?thesis .
qed

lemma thousand_tens: "(n::nat) mod 1000 div 10 mod 10 = n div 10 mod 10"
proof -
  have "n mod (10 * 100) = 10 * (n div 10 mod 100) + n mod 10" by (rule mod_mult2_eq)
  then have "n mod 1000 div 10 = (10 * (n div 10 mod 100) + n mod 10) div 10" by simp
  also have "\<dots> = n div 10 mod 100" by simp
  finally have "n mod 1000 div 10 mod 10 = n div 10 mod 100 mod 10" by simp
  also have "\<dots> = n div 10 mod 10" by (rule mod_mod_cancel) simp
  finally show ?thesis .
qed

lemma thousand_units: "(n::nat) mod 1000 mod 10 = n mod 10"
  by (rule mod_mod_cancel) simp

lemma showNat_pad3:
  assumes "1000 \<le> n"
  shows "showNat n = showNat (n div 1000) @ pad3 (n mod 1000)"
proof -
  have a: "n div 10 div 10 = n div 100" "n div 100 div 10 = n div 1000"
    by (simp_all add: div_mult2_eq [symmetric])
  note b = thousand_hundreds [of n] thousand_tens [of n] thousand_units [of n]
  from assms have "10 \<le> n" "10 \<le> n div 10" "10 \<le> n div 100" by simp_all
  then have "showNat n =
      showNat (n div 1000) @ [digit (n div 100 mod 10), digit (n div 10 mod 10), digit (n mod 10)]"
    using showNat_step [of n] showNat_step [of "n div 10"] showNat_step [of "n div 100"]
    by (simp add: a)
  then show ?thesis by (simp add: pad3_def b)
qed

lemma groupThousands_digits:
  "filter (\<lambda>ch. ch \<noteq> CHR ''.'') (groupThousands n) = showNat n"
proof (induction n rule: groupThousands.induct)
  case (1 n)
  show ?case
  proof (cases "n < 1000")
    case True
    then show ?thesis
      using showNat_not_stop [of n] by (subst groupThousands.simps) (auto simp: filter_id_conv)
  next
    case False
    then have "filter (\<lambda>ch. ch \<noteq> CHR ''.'') (groupThousands n) =
        showNat (n div 1000) @ pad3 (n mod 1000)"
      using 1 by (subst groupThousands.simps) (simp add: pad3_def digit_not_stop)
    with False show ?thesis by (simp add: showNat_pad3)
  qed
qed


lemma showNat_length: "0 < length (showNat n)" "n < 1000 \<Longrightarrow> length (showNat n) \<le> 3"
proof -
  show "0 < length (showNat n)" by (subst showNat.simps) simp
  assume n: "n < 1000"
  have one: "k < 10 \<Longrightarrow> length (showNat k) = 1" for k by (subst showNat.simps) simp
  show "length (showNat n) \<le> 3"
  proof (cases "n < 10")
    case True
    then show ?thesis by (simp add: one)
  next
    case False
    show ?thesis
    proof (cases "n < 100")
      case True
      with False have "n div 10 < 10" by simp
      with False show ?thesis by (simp add: showNat_step one)
    next
      case h: False
      from n have "n div 10 div 10 < 10" by simp
      moreover from h have "10 \<le> n div 10" by simp
      ultimately show ?thesis using False by (simp add: showNat_step one)
    qed
  qed
qed

lemma groupThousands_stops:
  "length (groupThousands n) mod 4 \<noteq> 0 \<and>
   (\<forall>i<length (groupThousands n). (rev (groupThousands n) ! i = CHR ''.'') = (i mod 4 = 3))"
proof (induction n rule: groupThousands.induct)
  case (1 n)
  show ?case
  proof (cases "n < 1000")
    case True
    then have g: "groupThousands n = showNat n" by (subst groupThousands.simps) simp
    from True have len: "0 < length (showNat n)" "length (showNat n) \<le> 3"
      using showNat_length [of n] by simp_all
    have "rev (showNat n) ! i \<noteq> CHR ''.''" if "i < length (showNat n)" for i
      using that showNat_not_stop [of n] by (metis length_rev nth_mem set_rev)
    moreover have "i mod 4 \<noteq> 3" if "i < length (showNat n)" for i
      using that len by simp
    ultimately show ?thesis using len by (simp add: g)
  next
    case False
    define g where "g = groupThousands (n div 1000)"
    from False 1 have ih: "length g mod 4 \<noteq> 0"
      "\<And>i. i < length g \<Longrightarrow> (rev g ! i = CHR ''.'') = (i mod 4 = 3)"
      by (simp_all add: g_def)
    from False have e: "groupThousands n = g @ ''.'' @ pad3 (n mod 1000)"
      by (subst groupThousands.simps) (simp add: g_def)
    define ds where "ds = [digit (n mod 1000 mod 10), digit (n mod 1000 div 10 mod 10),
        digit (n mod 1000 div 100), CHR ''.'']"
    have four: "length ds = 4" by (simp add: ds_def)
    have r: "rev (groupThousands n) = ds @ rev g"
      by (simp add: e pad3_def ds_def)
    have l: "length (groupThousands n) = length g + 4" by (simp add: e pad3_def)
    have "(rev (groupThousands n) ! i = CHR ''.'') = (i mod 4 = 3)" if "i < length g + 4" for i
    proof (cases "i < 4")
      case True
      then have "rev (groupThousands n) ! i = ds ! i" by (simp add: r nth_append four)
      moreover from True consider "i = 0" | "i = 1" | "i = 2" | "i = 3" by linarith
      then have "(ds ! i = CHR ''.'') = (i mod 4 = 3)"
        by cases (simp_all add: ds_def digit_not_stop)
      ultimately show ?thesis by simp
    next
      case False
      then have "rev (groupThousands n) ! i = rev g ! (i - 4)"
        by (simp add: r nth_append four)
      moreover from False that have "i - 4 < length g" by simp
      moreover from False have "(i - 4) mod 4 = i mod 4"
        by (simp add: le_mod_geq)
      ultimately show ?thesis using ih(2) [of "i - 4"] by simp
    qed
    with ih(1) show ?thesis by (simp add: l)
  qed
qed

lemma sample_amount:
  "toLocaleString \<lparr>negative = False, magnitude = 25000\<rparr> = ''25.000,00''"
  by (simp add: toLocaleString_def thousandths_def Let_def groupThousands.simps showNat.simps
      pad3_def fractionDigits_def digit_def)

lemma negative_zero_amount:
  "toLocaleString \<lparr>negative = True, magnitude = 0\<rparr> = ''-0,00''"
  by (simp add: toLocaleString_def thousandths_def Let_def groupThousands.simps showNat.simps
      pad3_def fractionDigits_def digit_def)

lemma cents_exact:
  assumes "magnitude v * 100 \<in> \<int>"
  shows "real (cents v) = \<bar>magnitude v\<bar> * 100"
proof -
  from assms obtain k :: int where k: "magnitude v * 100 = of_int k" by (auto elim: Ints_cases)
  have c: "\<bar>magnitude v\<bar> * 100 = of_int \<bar>k\<bar>"
    using k by (simp add: abs_mult [symmetric])
  then have "\<lfloor>\<bar>magnitude v\<bar> * 100\<rfloor> = \<bar>k\<bar>" by (simp only: floor_of_int)
  then show ?thesis by (simp add: cents_def c)
qed

section \<open>Page breaks\<close>

text \<open>
  Claim C1. \<^verbatim>\<open>renderSection\<close> adds a page exactly when the cursor is strictly below
  \<open>pageHeight - margin - 100\<close>, and the page comes before the section header: what it
  appends to the draw list is that page, if any, then the header at the cursor (at the top
  left of the new page when one was added), then draws that add no page. The signature
  block does the same with 400 for 100. This holds for every canvas, margin and page
  geometry, and for every backend.
\<close>

theorem page_break_threshold:
  "(\<exists>rest. drawn (renderSection B opts n s c) =
      drawn c @ (if doc_y c > page_height c - margin opts - 100 then [NewPage] else []) @
      Text (showNat n @ ''. '' @ title s)
        (if doc_y c > page_height c - margin opts - 100 then margins_left c else doc_x c)
        (if doc_y c > page_height c - margin opts - 100 then margins_top c else doc_y c)
        noOptions ''Helvetica-Bold'' 12 (fill_color c) # rest
      \<and> NewPage \<notin> set rest)
   \<and> (\<exists>rest. drawn (renderSignatureBlock B opts d c) =
      drawn c @ (if doc_y c > page_height c - margin opts - 400 then [NewPage] else []) @ rest
      \<and> rest \<noteq> [] \<and> NewPage \<notin> set rest)"
proof
  let ?g = "doc_y c > page_height c - margin opts - 100"
  define c1 where "c1 = (if ?g then addPage c else c)"
  define c2 where "c2 = font ''Helvetica'' (fontSize 11 (moveDown B 0.5
      (text_cur B (showNat n @ ''. '' @ title s) noOptions (font ''Helvetica-Bold'' (fontSize 12 c1)))))"
  obtain rest where r: "drawn (renderItems B n 1 (items s) c2) = drawn c2 @ rest"
    and np: "NewPage \<notin> set rest"
    using renderItems_no_page by blast
  have "drawn (renderSection B opts n s c) = drawn (renderItems B n 1 (items s) c2)"
    by (simp add: renderSection_def Let_def c2_def c1_def drawn_same)
  moreover have "drawn c2 = drawn c @ (if ?g then [NewPage] else []) @
      [Text (showNat n @ ''. '' @ title s) (if ?g then margins_left c else doc_x c)
        (if ?g then margins_top c else doc_y c) noOptions ''Helvetica-Bold'' 12 (fill_color c)]"
    by (simp add: c2_def c1_def canvas_ops)
  ultimately show "\<exists>rest. drawn (renderSection B opts n s c) =
      drawn c @ (if ?g then [NewPage] else []) @
      Text (showNat n @ ''. '' @ title s) (if ?g then margins_left c else doc_x c)
        (if ?g then margins_top c else doc_y c) noOptions ''Helvetica-Bold'' 12 (fill_color c) # rest
      \<and> NewPage \<notin> set rest"
    using r np by simp
next
  let ?g = "doc_y c > page_height c - margin opts - 400"
  define c3 where "c3 = signatureIntro B opts c"
  have intro: "\<exists>t. drawn c3 = drawn c @ (if ?g then [NewPage] else []) @ [t] \<and> t \<noteq> NewPage"
    by (simp add: c3_def signatureIntro_def Let_def canvas_ops)
  then obtain t where t: "drawn c3 = drawn c @ (if ?g then [NewPage] else []) @ [t]" "t \<noteq> NewPage"
    by blast
  have rows: "\<exists>rs. drawn (signatureRows B opts d c3) = drawn c3 @ rs \<and> NewPage \<notin> set rs"
    by (simp add: signatureRows_drawn signatureRowDraws_def Let_def)
  then obtain rs where rs: "drawn (signatureRows B opts d c3) = drawn c3 @ rs" "NewPage \<notin> set rs"
    by blast
  have "drawn (renderSignatureBlock B opts d c) =
      drawn c @ (if ?g then [NewPage] else []) @ (t # rs)"
    using t rs by (simp add: renderSignatureBlock_def c3_def)
  moreover have "t # rs \<noteq> []" "NewPage \<notin> set (t # rs)" using t rs by auto
  ultimately show "\<exists>rest. drawn (renderSignatureBlock B opts d c) =
      drawn c @ (if ?g then [NewPage] else []) @ rest \<and> rest \<noteq> [] \<and> NewPage \<notin> set rest"
    by blast
qed

text \<open>
  At the default geometry (A4, margin 72) the thresholds are 669.89 and 369.89: a cursor
  exactly there adds no page, one unit further down adds one.
\<close>

theorem page_break_threshold_witness:
  "(\<exists>rest. drawn (renderSection sampleBackend defaultOptions 1 sampleSection
        (setY 669.89 (newDocument sampleBackend defaultOptions))) =
      Text ''1. SCOPE'' 72 669.89 noOptions ''Helvetica-Bold'' 12 ''#000000'' # rest
      \<and> NewPage \<notin> set rest)
   \<and> (\<exists>rest. drawn (renderSection sampleBackend defaultOptions 1 sampleSection
        (setY 670.89 (newDocument sampleBackend defaultOptions))) =
      NewPage # Text ''1. SCOPE'' 72 72 noOptions ''Helvetica-Bold'' 12 ''#000000'' # rest
      \<and> NewPage \<notin> set rest)
   \<and> (\<exists>rest. drawn (renderSignatureBlock sampleBackend defaultOptions sampleData
        (setY 369.89 (newDocument sampleBackend defaultOptions))) = rest
      \<and> rest \<noteq> [] \<and> NewPage \<notin> set rest)
   \<and> (\<exists>rest. drawn (renderSignatureBlock sampleBackend defaultOptions sampleData
        (setY 370.89 (newDocument sampleBackend defaultOptions))) = NewPage # rest
      \<and> rest \<noteq> [] \<and> NewPage \<notin> set rest)"
  using page_break_threshold [of sampleBackend defaultOptions 1 sampleSection
      "setY 669.89 (newDocument sampleBackend defaultOptions)" sampleData]
    page_break_threshold [of sampleBackend defaultOptions 1 sampleSection
      "setY 670.89 (newDocument sampleBackend defaultOptions)" sampleData]
    page_break_threshold [of sampleBackend defaultOptions 1 sampleSection
      "setY 369.89 (newDocument sampleBackend defaultOptions)" sampleData]
    page_break_threshold [of sampleBackend defaultOptions 1 sampleSection
      "setY 370.89 (newDocument sampleBackend defaultOptions)" sampleData]
  by (simp add: sample_eval sampleSection_def showNat.simps digit_def)

section \<open>Signature block geometry\<close>

text \<open>
  Claim C2. For every cursor \<open>y0\<close> at which the Client row starts, the two rows are drawn
  as the specification lays them out, the first at \<open>y0\<close> and the second at \<open>y0 + 170\<close>,
  and the cursor ends at \<open>(y0 + 170) + 140\<close>: the label at the start, the rule at
  \<open>+ 85\<close> over \<open>signatureWidth - 20\<close>, the name, title and date lines at \<open>+ 93\<close>,
  \<open>+ 108\<close> and \<open>+ 123\<close>. Neither the names nor what the backend measures for any text
  appears in a position. \<^verbatim>\<open>renderSignatureBlock\<close> runs the rows from the cursor its
  first part leaves.
\<close>

theorem signature_block_fixed_offsets:
  "drawn (signatureRows B opts d c) =
     drawn c @
     signatureRowDraws (includeSignatureMarkers opts) (fill_color c) (margins_left c) (doc_y c)
       ((page_width c - margins_left c - margins_right c) * 0.75)
       ''CLIENT'' (clientName d) ''{{ClientSignature}}'' @
     signatureRowDraws (includeSignatureMarkers opts)
       (if includeSignatureMarkers opts then ''#000000'' else fill_color c)
       (margins_left c) (doc_y c + 170)
       ((page_width c - margins_left c - margins_right c) * 0.75)
       ''PROVIDER'' (providerName d) ''{{ProviderSignature}}''
   \<and> doc_y (signatureRows B opts d c) = (doc_y c + 170) + 140
   \<and> renderSignatureBlock B opts d c0 = signatureRows B opts d (signatureIntro B opts c0)"
  by (simp add: signatureRows_drawn signatureRows_y renderSignatureBlock_def)

theorem signature_block_fixed_offsets_witness:
  "drawn (signatureRows sampleBackend defaultOptions sampleData
      (setY 300 (newDocument sampleBackend defaultOptions))) =
     signatureRowDraws True ''#000000'' 72 300 338.46
       ''CLIENT'' ''Acme Corporation B.V.'' ''{{ClientSignature}}'' @
     signatureRowDraws True ''#000000'' 72 470 338.46
       ''PROVIDER'' ''TechSolutions B.V.'' ''{{ProviderSignature}}''
   \<and> doc_y (signatureRows sampleBackend defaultOptions sampleData
      (setY 300 (newDocument sampleBackend defaultOptions))) = 610"
  using signature_block_fixed_offsets [of sampleBackend defaultOptions sampleData
      "setY 300 (newDocument sampleBackend defaultOptions)" "newDocument sampleBackend defaultOptions"]
  by (simp add: sample_eval sampleData_def)

section \<open>Section model\<close>

text \<open>
  Claim C4. For every contract data \<^verbatim>\<open>buildSections\<close> returns seven sections, titled, in
  this order: Scope of Services, Compensation, Term and Termination, Confidentiality,
  Intellectual Property, Limitation of Liability, General Provisions (in capitals in the
  code).
\<close>

theorem buildSections_seven_in_order:
  "length (buildSections d) = 7 \<and>
   map title (buildSections d) =
     [''SCOPE OF SERVICES'', ''COMPENSATION'', ''TERM AND TERMINATION'', ''CONFIDENTIALITY'',
      ''INTELLECTUAL PROPERTY'', ''LIMITATION OF LIABILITY'', ''GENERAL PROVISIONS'']"
  by (simp add: buildSections_def)

text \<open>
  Claim C9. Two contract data that agree on the project description, the payment amount
  and the payment terms give equal section lists: no other field reaches a section.
\<close>

theorem buildSections_depends_on_three_fields:
  "projectDescription d1 = projectDescription d2 \<Longrightarrow> paymentAmount d1 = paymentAmount d2 \<Longrightarrow>
   paymentTerms d1 = paymentTerms d2 \<Longrightarrow> buildSections d1 = buildSections d2"
  by (simp add: buildSections_def)

theorem buildSections_depends_on_three_fields_witness:
  "clientName sampleData \<noteq> clientName swappedData \<and>
   contractNumber sampleData \<noteq> contractNumber swappedData \<and>
   buildSections sampleData = buildSections swappedData"
  using buildSections_depends_on_three_fields [of sampleData swappedData]
  by (simp add: sampleData_def swappedData_def)

section \<open>Numbering\<close>

text \<open>
  Claim C5. The texts drawn for a list of sections are, for the section at position \<open>i\<close>
  (from 1), the header \<open>i. title\<close> and, for its item at position \<open>j\<close> (from 1), the label
  \<open>i.j\<close>, two spaces and the item. This holds for every list of sections, so the numbers
  follow the order of the list; the sections of a contract are the instance
  \<^verbatim>\<open>renderSections\<close> draws.
\<close>

theorem section_numbering:
  "texts (drawn (renderSectionList B opts 1 ss c)) = texts (drawn c) @ numberedTexts 1 ss
   \<and> texts (drawn (renderSections B opts d c)) = texts (drawn c) @ numberedTexts 1 (buildSections d)"
  by (simp add: renderSections_def renderSectionList_texts)

text \<open>Two sections in either order: the numbers follow the positions.\<close>

theorem section_numbering_witness:
  "texts (drawn (renderSectionList sampleBackend defaultOptions 1 [sampleSection, otherSection]
      (newDocument sampleBackend defaultOptions))) =
     [''1. SCOPE'', ''1.1  First clause.'', ''1.2  Second clause.'', ''2. FEES'', ''2.1  Only clause.'']
   \<and> texts (drawn (renderSectionList sampleBackend defaultOptions 1 [otherSection, sampleSection]
      (newDocument sampleBackend defaultOptions))) =
     [''1. FEES'', ''1.1  Only clause.'', ''2. SCOPE'', ''2.1  First clause.'', ''2.2  Second clause.'']"
proof -
  have a: "numberedTexts 1 [sampleSection, otherSection] =
     [''1. SCOPE'', ''1.1  First clause.'', ''1.2  Second clause.'', ''2. FEES'', ''2.1  Only clause.'']"
    by code_simp
  have b: "numberedTexts 1 [otherSection, sampleSection] =
     [''1. FEES'', ''1.1  Only clause.'', ''2. SCOPE'', ''2.1  First clause.'', ''2.2  Second clause.'']"
    by code_simp
  have e: "drawn (newDocument sampleBackend defaultOptions) = []"
    by (simp add: newDocument_def)
  show ?thesis
    using section_numbering [of sampleBackend defaultOptions "[sampleSection, otherSection]"
        "newDocument sampleBackend defaultOptions" sampleData]
      section_numbering [of sampleBackend defaultOptions "[otherSection, sampleSection]"
        "newDocument sampleBackend defaultOptions" sampleData]
    by (simp only: a b e texts.simps append_Nil simp_thms)
qed

section \<open>Signature markers\<close>

text \<open>
  Claim C3, as amended. With \<^verbatim>\<open>includeSignatureMarkers\<close> false the builder draws no
  marker, and the draws of the document are those of the true setting with the two marker
  texts removed: positions, styles and the final cursor are the same. With it true, each
  token is drawn once as a marker, 25 below the start of its row, the Provider's row
  starting 170 below the Client's. The builder does not escape the contract data, so a
  token can also reach a text through a data field; when no string field of the data
  contains the token, no text contains it under false and exactly one, the marker, under
  true.
\<close>

theorem marker_toggle:
  "filter (\<lambda>dr. \<not> markerDraw dr) (drawn (builtDocument B (withMarkers True opts) d)) =
     drawn (builtDocument B (withMarkers False opts) d)
   \<and> filter markerDraw (drawn (builtDocument B (withMarkers False opts) d)) = []
   \<and> (\<exists>pre y0 w.
         drawn (builtDocument B (withMarkers True opts) d) =
           pre @
           [Text ''CLIENT'' (margin opts) y0 (widthOnly w) ''Helvetica'' 10 ''#000000'',
            Text ''{{ClientSignature}}'' (margin opts) (y0 + 25) noOptions ''Helvetica'' 1 ''#ffffff'',
            Stroke [(margin opts, y0 + 85), (margin opts + w - 20, y0 + 85)] ''#000000'',
            Text (''Name: '' @ clientName d) (margin opts) (y0 + 93) (widthOnly w) ''Helvetica'' 10 ''#000000'',
            Text ''Title: _______________________'' (margin opts) (y0 + 108) (widthOnly w)
              ''Helvetica'' 10 ''#000000'',
            Text ''Date: _______________________'' (margin opts) (y0 + 123) (widthOnly w)
              ''Helvetica'' 10 ''#000000'',
            Text ''PROVIDER'' (margin opts) (y0 + 170) (widthOnly w) ''Helvetica'' 10 ''#000000'',
            Text ''{{ProviderSignature}}'' (margin opts) (y0 + 170 + 25) noOptions ''Helvetica'' 1 ''#ffffff'',
            Stroke [(margin opts, y0 + 170 + 85), (margin opts + w - 20, y0 + 170 + 85)] ''#000000'',
            Text (''Name: '' @ providerName d) (margin opts) (y0 + 170 + 93) (widthOnly w)
              ''Helvetica'' 10 ''#000000'',
            Text ''Title: _______________________'' (margin opts) (y0 + 170 + 108) (widthOnly w)
              ''Helvetica'' 10 ''#000000'',
            Text ''Date: _______________________'' (margin opts) (y0 + 170 + 123) (widthOnly w)
              ''Helvetica'' 10 ''#000000'']
         \<and> drawn (builtDocument B (withMarkers False opts) d) =
           pre @
           [Text ''CLIENT'' (margin opts) y0 (widthOnly w) ''Helvetica'' 10 ''#000000'',
            Stroke [(margin opts, y0 + 85), (margin opts + w - 20, y0 + 85)] ''#000000'',
            Text (''Name: '' @ clientName d) (margin opts) (y0 + 93) (widthOnly w) ''Helvetica'' 10 ''#000000'',
            Text ''Title: _______________________'' (margin opts) (y0 + 108) (widthOnly w)
              ''Helvetica'' 10 ''#000000'',
            Text ''Date: _______________________'' (margin opts) (y0 + 123) (widthOnly w)
              ''Helvetica'' 10 ''#000000'',
            Text ''PROVIDER'' (margin opts) (y0 + 170) (widthOnly w) ''Helvetica'' 10 ''#000000'',
            Stroke [(margin opts, y0 + 170 + 85), (margin opts + w - 20, y0 + 170 + 85)] ''#000000'',
            Text (''Name: '' @ providerName d) (margin opts) (y0 + 170 + 93) (widthOnly w)
              ''Helvetica'' 10 ''#000000'',
            Text ''Title: _______________________'' (margin opts) (y0 + 170 + 108) (widthOnly w)
              ''Helvetica'' 10 ''#000000'',
            Text ''Date: _______________________'' (margin opts) (y0 + 170 + 123) (widthOnly w)
              ''Helvetica'' 10 ''#000000'']
         \<and> filter markerDraw pre = []
         \<and> filter markerDraw (drawn (builtDocument B (withMarkers True opts) d)) =
           [Text ''{{ClientSignature}}'' (margin opts) (y0 + 25) noOptions ''Helvetica'' 1 ''#ffffff'',
            Text ''{{ProviderSignature}}'' (margin opts) (y0 + 170 + 25) noOptions ''Helvetica'' 1 ''#ffffff''])
   \<and> doc_y (builtDocument B (withMarkers True opts) d) =
       doc_y (builtDocument B (withMarkers False opts) d)
   \<and> (anchor tok \<longrightarrow> (\<forall>f\<in>set (dataStrings d). \<not> sublist tok f) \<longrightarrow>
        filter (sublist tok) (texts (drawn (builtDocument B (withMarkers False opts) d))) = [] \<and>
        filter (sublist tok) (texts (drawn (builtDocument B (withMarkers True opts) d))) = [tok])"
proof -
  define c4 where "c4 = signatureIntro B opts (renderSections B opts d
      (renderPreamble B d (renderHeader B d (newDocument B opts))))"
  have doc: "builtDocument B (withMarkers b opts) d = signatureRows B (withMarkers b opts) d c4" for b
    by (simp add: builtDocument_rows c4_def)
  have fill: "fill_color c4 = ''#000000''" by (simp add: c4_def before_rows_fill)
  have left: "margins_left c4 = margin opts"
    by (simp add: c4_def before_rows_margins newDocument_def)
  have inc: "includeSignatureMarkers (withMarkers b opts) = b" for b
    by (simp add: withMarkers_def)
  note pre = no_white_no_marker [OF before_rows_no_white [of B opts d], folded c4_def]
  have dr: "drawn (builtDocument B (withMarkers b opts) d) =
      drawn c4 @
      signatureRowDraws b ''#000000'' (margin opts) (doc_y c4)
        ((page_width c4 - margins_left c4 - margins_right c4) * 0.75)
        ''CLIENT'' (clientName d) ''{{ClientSignature}}'' @
      signatureRowDraws b ''#000000'' (margin opts) (doc_y c4 + 170)
        ((page_width c4 - margins_left c4 - margins_right c4) * 0.75)
        ''PROVIDER'' (providerName d) ''{{ProviderSignature}}''" for b
    by (simp add: doc signatureRows_drawn fill inc left)
  have a: "filter (\<lambda>dr. \<not> markerDraw dr) (drawn (builtDocument B (withMarkers True opts) d)) =
     drawn (builtDocument B (withMarkers False opts) d)"
    by (simp only: dr filter_append pre rows_markers)
  have b: "filter markerDraw (drawn (builtDocument B (withMarkers False opts) d)) = []"
    by (simp only: dr filter_append pre rows_markers if_False append_Nil)
  define w4 where "w4 = (page_width c4 - margins_left c4 - margins_right c4) * 0.75"
  have c1: "drawn (builtDocument B (withMarkers True opts) d) =
           drawn c4 @
           [Text ''CLIENT'' (margin opts) (doc_y c4) (widthOnly w4) ''Helvetica'' 10 ''#000000'',
            Text ''{{ClientSignature}}'' (margin opts) (doc_y c4 + 25) noOptions ''Helvetica'' 1 ''#ffffff'',
            Stroke [(margin opts, doc_y c4 + 85), (margin opts + w4 - 20, doc_y c4 + 85)] ''#000000'',
            Text (''Name: '' @ clientName d) (margin opts) (doc_y c4 + 93) (widthOnly w4) ''Helvetica'' 10 ''#000000'',
            Text ''Title: _______________________'' (margin opts) (doc_y c4 + 108) (widthOnly w4)
              ''Helvetica'' 10 ''#000000'',
            Text ''Date: _______________________'' (margin opts) (doc_y c4 + 123) (widthOnly w4)
              ''Helvetica'' 10 ''#000000'',
            Text ''PROVIDER'' (margin opts) (doc_y c4 + 170) (widthOnly w4) ''Helvetica'' 10 ''#000000'',
            Text ''{{ProviderSignature}}'' (margin opts) (doc_y c4 + 170 + 25) noOptions ''Helvetica'' 1 ''#ffffff'',
            Stroke [(margin opts, doc_y c4 + 170 + 85), (margin opts + w4 - 20, doc_y c4 + 170 + 85)] ''#000000'',
            Text (''Name: '' @ providerName d) (margin opts) (doc_y c4 + 170 + 93) (widthOnly w4)
              ''Helvetica'' 10 ''#000000'',
            Text ''Title: _______________________'' (margin opts) (doc_y c4 + 170 + 108) (widthOnly w4)
              ''Helvetica'' 10 ''#000000'',
            Text ''Date: _______________________'' (margin opts) (doc_y c4 + 170 + 123) (widthOnly w4)
              ''Helvetica'' 10 ''#000000'']"
    by (simp add: dr signatureRowDraws_def Let_def w4_def)
  have c2: "drawn (builtDocument B (withMarkers False opts) d) =
           drawn c4 @
           [Text ''CLIENT'' (margin opts) (doc_y c4) (widthOnly w4) ''Helvetica'' 10 ''#000000'',
            Stroke [(margin opts, doc_y c4 + 85), (margin opts + w4 - 20, doc_y c4 + 85)] ''#000000'',
            Text (''Name: '' @ clientName d) (margin opts) (doc_y c4 + 93) (widthOnly w4) ''Helvetica'' 10 ''#000000'',
            Text ''Title: _______________________'' (margin opts) (doc_y c4 + 108) (widthOnly w4)
              ''Helvetica'' 10 ''#000000'',
            Text ''Date: _______________________'' (margin opts) (doc_y c4 + 123) (widthOnly w4)
              ''Helvetica'' 10 ''#000000'',
            Text ''PROVIDER'' (margin opts) (doc_y c4 + 170) (widthOnly w4) ''Helvetica'' 10 ''#000000'',
            Stroke [(margin opts, doc_y c4 + 170 + 85), (margin opts + w4 - 20, doc_y c4 + 170 + 85)] ''#000000'',
            Text (''Name: '' @ providerName d) (margin opts) (doc_y c4 + 170 + 93) (widthOnly w4)
              ''Helvetica'' 10 ''#000000'',
            Text ''Title: _______________________'' (margin opts) (doc_y c4 + 170 + 108) (widthOnly w4)
              ''Helvetica'' 10 ''#000000'',
            Text ''Date: _______________________'' (margin opts) (doc_y c4 + 170 + 123) (widthOnly w4)
              ''Helvetica'' 10 ''#000000'']"
    by (simp add: dr signatureRowDraws_def Let_def w4_def)
  have c3: "filter markerDraw (drawn c4) = []" by (rule pre [THEN conjunct1])
  have c0: "filter markerDraw (drawn (builtDocument B (withMarkers True opts) d) ) =
           [Text ''{{ClientSignature}}'' (margin opts) (doc_y c4 + 25) noOptions ''Helvetica'' 1 ''#ffffff'',
            Text ''{{ProviderSignature}}'' (margin opts) (doc_y c4 + 170 + 25) noOptions ''Helvetica'' 1 ''#ffffff'']"
    by (simp only: dr filter_append pre rows_markers if_True append_Nil append_Cons)
  have c: "\<exists>pre y0 w.
         drawn (builtDocument B (withMarkers True opts) d) =
           pre @
           [Text ''CLIENT'' (margin opts) y0 (widthOnly w) ''Helvetica'' 10 ''#000000'',
            Text ''{{ClientSignature}}'' (margin opts) (y0 + 25) noOptions ''Helvetica'' 1 ''#ffffff'',
            Stroke [(margin opts, y0 + 85), (margin opts + w - 20, y0 + 85)] ''#000000'',
            Text (''Name: '' @ clientName d) (margin opts) (y0 + 93) (widthOnly w) ''Helvetica'' 10 ''#000000'',
            Text ''Title: _______________________'' (margin opts) (y0 + 108) (widthOnly w)
              ''Helvetica'' 10 ''#000000'',
            Text ''Date: _______________________'' (margin opts) (y0 + 123) (widthOnly w)
              ''Helvetica'' 10 ''#000000'',
            Text ''PROVIDER'' (margin opts) (y0 + 170) (widthOnly w) ''Helvetica'' 10 ''#000000'',
            Text ''{{ProviderSignature}}'' (margin opts) (y0 + 170 + 25) noOptions ''Helvetica'' 1 ''#ffffff'',
            Stroke [(margin opts, y0 + 170 + 85), (margin opts + w - 20, y0 + 170 + 85)] ''#000000'',
            Text (''Name: '' @ providerName d) (margin opts) (y0 + 170 + 93) (widthOnly w)
              ''Helvetica'' 10 ''#000000'',
            Text ''Title: _______________________'' (margin opts) (y0 + 170 + 108) (widthOnly w)
              ''Helvetica'' 10 ''#000000'',
            Text ''Date: _______________________'' (margin opts) (y0 + 170 + 123) (widthOnly w)
              ''Helvetica'' 10 ''#000000'']
         \<and> drawn (builtDocument B (withMarkers False opts) d) =
           pre @
           [Text ''CLIENT'' (margin opts) y0 (widthOnly w) ''Helvetica'' 10 ''#000000'',
            Stroke [(margin opts, y0 + 85), (margin opts + w - 20, y0 + 85)] ''#000000'',
            Text (''Name: '' @ clientName d) (margin opts) (y0 + 93) (widthOnly w) ''Helvetica'' 10 ''#000000'',
            Text ''Title: _______________________'' (margin opts) (y0 + 108) (widthOnly w)
              ''Helvetica'' 10 ''#000000'',
            Text ''Date: _______________________'' (margin opts) (y0 + 123) (widthOnly w)
              ''Helvetica'' 10 ''#000000'',
            Text ''PROVIDER'' (margin opts) (y0 + 170) (widthOnly w) ''Helvetica'' 10 ''#000000'',
            Stroke [(margin opts, y0 + 170 + 85), (margin opts + w - 20, y0 + 170 + 85)] ''#000000'',
            Text (''Name: '' @ providerName d) (margin opts) (y0 + 170 + 93) (widthOnly w)
              ''Helvetica'' 10 ''#000000'',
            Text ''Title: _______________________'' (margin opts) (y0 + 170 + 108) (widthOnly w)
              ''Helvetica'' 10 ''#000000'',
            Text ''Date: _______________________'' (margin opts) (y0 + 170 + 123) (widthOnly w)
              ''Helvetica'' 10 ''#000000'']
         \<and> filter markerDraw pre = []
         \<and> filter markerDraw (drawn (builtDocument B (withMarkers True opts) d)) =
           [Text ''{{ClientSignature}}'' (margin opts) (y0 + 25) noOptions ''Helvetica'' 1 ''#ffffff'',
            Text ''{{ProviderSignature}}'' (margin opts) (y0 + 170 + 25) noOptions ''Helvetica'' 1 ''#ffffff'']"
    by (rule exI [of _ "drawn c4"], rule exI [of _ "doc_y c4"], rule exI [of _ w4], intro conjI)
      (rule c1, rule c2, rule c3, rule c0)
  have e: "doc_y (builtDocument B (withMarkers True opts) d) =
       doc_y (builtDocument B (withMarkers False opts) d)"
    by (simp only: doc signatureRows_y)
  have f: "anchor tok \<longrightarrow> (\<forall>f\<in>set (dataStrings d). \<not> sublist tok f) \<longrightarrow>
        filter (sublist tok) (texts (drawn (builtDocument B (withMarkers False opts) d))) = [] \<and>
        filter (sublist tok) (texts (drawn (builtDocument B (withMarkers True opts) d))) = [tok]"
  proof (intro impI)
    assume h: "anchor tok" "\<forall>f\<in>set (dataStrings d). \<not> sublist tok f"
    have e0: "texts (drawn (newDocument B (withMarkers b opts))) = []" for b
      by (simp add: newDocument_def)
    show "filter (sublist tok) (texts (drawn (builtDocument B (withMarkers False opts) d))) = [] \<and>
        filter (sublist tok) (texts (drawn (builtDocument B (withMarkers True opts) d))) = [tok]"
      by (simp add: builtDocument_def renderDocument_anchor [OF h] e0 inc)
  qed
  from a b c e f show ?thesis by (intro conjI)
qed

theorem marker_toggle_witness:
  "filter (sublist ''{{ClientSignature}}'')
     (texts (drawn (builtDocument sampleBackend (withMarkers False defaultOptions) sampleData))) = []
   \<and> filter (sublist ''{{ClientSignature}}'')
     (texts (drawn (builtDocument sampleBackend (withMarkers True defaultOptions) sampleData))) =
       [''{{ClientSignature}}'']"
proof -
  have a: "anchor ''{{ClientSignature}}''" by (simp add: anchor_def)
  from marker_toggle [of sampleBackend defaultOptions sampleData "''{{ClientSignature}}''"]
  have "anchor ''{{ClientSignature}}'' \<longrightarrow>
      (\<forall>f\<in>set (dataStrings sampleData). \<not> sublist ''{{ClientSignature}}'' f) \<longrightarrow>
      filter (sublist ''{{ClientSignature}}'')
        (texts (drawn (builtDocument sampleBackend (withMarkers False defaultOptions) sampleData))) = [] \<and>
      filter (sublist ''{{ClientSignature}}'')
        (texts (drawn (builtDocument sampleBackend (withMarkers True defaultOptions) sampleData))) =
          [''{{ClientSignature}}'']"
    by (elim conjE)
  with a sample_clean show ?thesis by (elim impE)
qed

text \<open>
  Claim C3 as stated fails on data that carries a token: with markers off and a client
  named \<open>{{ClientSignature}}\<close>, the name line of the Client row contains the token.
\<close>

theorem marker_token_from_data_counterexample:
  "\<not> includeSignatureMarkers (withMarkers False defaultOptions)
   \<and> ''Name: {{ClientSignature}}'' \<in>
       set (texts (drawn (builtDocument sampleBackend (withMarkers False defaultOptions) injectedData)))
   \<and> sublist ''{{ClientSignature}}'' ''Name: {{ClientSignature}}''"
proof -
  have n: "clientName injectedData = ''{{ClientSignature}}''" by (simp add: injectedData_def)
  have s: "sublist ''{{ClientSignature}}'' ''Name: {{ClientSignature}}''" by code_simp
  have "''Name: {{ClientSignature}}'' \<in>
       set (texts (drawn (builtDocument sampleBackend (withMarkers False defaultOptions) injectedData)))"
    by (simp add: builtDocument_rows signatureRows_drawn signatureRowDraws_texts n)
  with s show ?thesis by (simp add: withMarkers_def)
qed

section \<open>Fill colour\<close>

text \<open>
  Claim C10. The header leaves the fill black whatever it was; a signature row that draws
  a marker leaves it black, and one that draws none leaves it as it was. In a built
  document the only draws with a fill other than black are the grey contract number line
  and, when markers are enabled, the two white markers: every rule and every name, title
  and date line of both rows is drawn with black fill under both settings.
\<close>

theorem fill_restored_to_black:
  "fill_color (renderHeader B d c) = ''#000000''
   \<and> fill_color (renderSignatureRow B opts px py w label name tok c) =
       (if includeSignatureMarkers opts then ''#000000'' else fill_color c)
   \<and> offBlack (drawn (builtDocument B opts d)) =
       (Some (''Contract No: '' @ contractNumber d), ''#666666'') #
       (if includeSignatureMarkers opts
        then [(Some ''{{ClientSignature}}'', ''#ffffff''), (Some ''{{ProviderSignature}}'', ''#ffffff'')]
        else [])"
proof -
  have "fill_color (newDocument B opts) = ''#000000''" "drawn (newDocument B opts) = []"
    by (simp_all add: newDocument_def)
  then show ?thesis
    by (simp add: renderHeader_fill renderSignatureRow_frame renderDocument_offBlack builtDocument_def)
qed

section \<open>Currency format\<close>

text \<open>
  Claim C6, as amended. The first item of the Compensation section embeds the euro sign
  followed by the formatted amount. For every amount that is a whole number of cents the
  formatted amount is: a minus sign when the sign bit is set; the integer part, whose
  digits are the decimal digits of the whole euros and in which the full stops stand
  exactly at every fourth place counted from the right, never first; a comma; and exactly
  two fraction digits, the cents. 25000 is written 25.000,00.
\<close>

theorem currency_format:
  "hd (items (buildSections d ! 1)) =
     ''The Client agrees to pay the Provider a total amount of '' @ euro
       @ toLocaleString (paymentAmount d) @ '' (excluding VAT) for the services described herein.''
   \<and> (magnitude v * 100 \<in> \<int> \<longrightarrow>
        real (cents v) = \<bar>magnitude v\<bar> * 100
        \<and> (\<exists>ip. toLocaleString v =
               (if negative v then ''-'' else []) @ ip @ '','' @
               (if cents v mod 100 < 10 then ''0'' else []) @ showNat (cents v mod 100)
             \<and> filter (\<lambda>ch. ch \<noteq> CHR ''.'') ip = showNat (cents v div 100)
             \<and> length ip mod 4 \<noteq> 0
             \<and> (\<forall>i<length ip. (rev ip ! i = CHR ''.'') = (i mod 4 = 3)))
        \<and> fractionLength (toLocaleString v) = 2)
   \<and> toLocaleString \<lparr>negative = False, magnitude = 25000\<rparr> = ''25.000,00''"
proof -
  have b: "magnitude v * 100 \<in> \<int> \<longrightarrow>
        real (cents v) = \<bar>magnitude v\<bar> * 100
        \<and> (\<exists>ip. toLocaleString v =
               (if negative v then ''-'' else []) @ ip @ '','' @
               (if cents v mod 100 < 10 then ''0'' else []) @ showNat (cents v mod 100)
             \<and> filter (\<lambda>ch. ch \<noteq> CHR ''.'') ip = showNat (cents v div 100)
             \<and> length ip mod 4 \<noteq> 0
             \<and> (\<forall>i<length ip. (rev ip ! i = CHR ''.'') = (i mod 4 = 3)))
        \<and> fractionLength (toLocaleString v) = 2"
  proof
    assume w: "magnitude v * 100 \<in> \<int>"
    have f: "fractionLength (toLocaleString v) = 2"
      by (simp add: fractionLength_toLocaleString whole_cents [OF w])
    have e: "\<exists>ip. toLocaleString v =
               (if negative v then ''-'' else []) @ ip @ '','' @
               (if cents v mod 100 < 10 then ''0'' else []) @ showNat (cents v mod 100)
             \<and> filter (\<lambda>ch. ch \<noteq> CHR ''.'') ip = showNat (cents v div 100)
             \<and> length ip mod 4 \<noteq> 0
             \<and> (\<forall>i<length ip. (rev ip ! i = CHR ''.'') = (i mod 4 = 3))"
      by (rule exI [of _ "groupThousands (cents v div 100)"])
        (intro conjI toLocaleString_cents [OF w] groupThousands_digits
          groupThousands_stops [THEN conjunct1] groupThousands_stops [THEN conjunct2])
    from cents_exact [OF w] e f
    show "real (cents v) = \<bar>magnitude v\<bar> * 100
        \<and> (\<exists>ip. toLocaleString v =
               (if negative v then ''-'' else []) @ ip @ '','' @
               (if cents v mod 100 < 10 then ''0'' else []) @ showNat (cents v mod 100)
             \<and> filter (\<lambda>ch. ch \<noteq> CHR ''.'') ip = showNat (cents v div 100)
             \<and> length ip mod 4 \<noteq> 0
             \<and> (\<forall>i<length ip. (rev ip ! i = CHR ''.'') = (i mod 4 = 3)))
        \<and> fractionLength (toLocaleString v) = 2"
      by (intro conjI)
  qed
  from compensation_item [of d] b sample_amount show ?thesis by (intro conjI)
qed

text \<open>
  The sample amount, and negative zero, which is a whole number of cents and is written
  with its sign.
\<close>

theorem currency_format_witness:
  "hd (items (buildSections sampleData ! 1)) =
     ''The Client agrees to pay the Provider a total amount of '' @ euro @ ''25.000,00''
       @ '' (excluding VAT) for the services described herein.''
   \<and> fractionLength (toLocaleString (paymentAmount sampleData)) = 2
   \<and> cents (paymentAmount sampleData) = 2500000
   \<and> toLocaleString \<lparr>negative = True, magnitude = 0\<rparr> = ''-0,00''"
proof -
  have p: "paymentAmount sampleData = \<lparr>negative = False, magnitude = 25000\<rparr>"
    by (simp add: sampleData_def)
  have i: "magnitude (paymentAmount sampleData) * 100 \<in> \<int>" by (simp add: p)
  note w = currency_format [of sampleData "paymentAmount sampleData"]
  note a = w [THEN conjunct1]
  note m = w [THEN conjunct2, THEN conjunct1, THEN mp, OF i]
  note b = m [THEN conjunct2, THEN conjunct2]
  from m [THEN conjunct1] have c: "cents (paymentAmount sampleData) = 2500000"
    by (simp add: p)
  note s = w [THEN conjunct2, THEN conjunct2]
  show ?thesis using a b c s negative_zero_amount by (simp only: p simp_thms)
qed

text \<open>
  Claim C6 as stated asks for exactly two fraction digits for every amount; 1234.125
  is written with three.
\<close>

theorem currency_three_fraction_digits_counterexample:
  "hd (items (buildSections subCentData ! 1)) =
     ''The Client agrees to pay the Provider a total amount of '' @ euro @ ''1.234,125''
       @ '' (excluding VAT) for the services described herein.''
   \<and> fractionLength (toLocaleString (paymentAmount subCentData)) = 3"
proof -
  have p: "toLocaleString (paymentAmount subCentData) = ''1.234,125''"
    by (simp add: subCentData_def toLocaleString_def thousandths_def Let_def groupThousands.simps
        showNat.simps pad3_def fractionDigits_def digit_def)
  have f: "fractionLength ''1.234,125'' = 3" by (simp add: fractionLength_def)
  show ?thesis by (simp only: compensation_item p f simp_thms)
qed

section \<open>Failure propagation\<close>

text \<open>
  Claim C7. Whenever an error reaches the promise during a run, from the backend while
  the draw calls are issued, from the backend after \<^verbatim>\<open>doc.end()\<close>, or as an exception
  thrown by a draw call, \<^verbatim>\<open>build\<close> is rejected, with the first of these errors; all
  three take the same \<^verbatim>\<open>reject\<close>. It is resolved only when no error was signalled and
  the stream has ended, and then with every chunk that was delivered, in order.
\<close>

theorem build_failure_propagation:
  "(failuresOf r \<noteq> [] \<longrightarrow> build r = Rejected (hd (failuresOf r)))
   \<and> (build r = Resolved buf \<longrightarrow>
        failuresOf r = [] \<and> completes r \<and>
        buf = concat (delivered (during_draw r) @ delivered (after_draw r)))
   \<and> (Error e \<in> set (during_draw r) \<or> Error e \<in> set (after_draw r) \<or> thrown r = Some e
        \<longrightarrow> failuresOf r \<noteq> [])"
proof -
  have mem: "Error e \<in> set ns \<Longrightarrow> failures ns \<noteq> []" for ns
    by (induction ns rule: failures.induct) auto
  have a: "failuresOf r \<noteq> [] \<longrightarrow> build r = Rejected (hd (failuresOf r))"
    by (simp add: build_outcome split: list.splits)
  have b: "build r = Resolved buf \<longrightarrow>
        failuresOf r = [] \<and> completes r \<and>
        buf = concat (delivered (during_draw r) @ delivered (after_draw r))"
    by (simp add: build_outcome split: list.splits if_splits)
  have c: "Error e \<in> set (during_draw r) \<or> Error e \<in> set (after_draw r) \<or> thrown r = Some e
        \<longrightarrow> failuresOf r \<noteq> []"
    using mem [of "during_draw r"] mem [of "after_draw r"] by (auto simp: failuresOf_def)
  from a b c show ?thesis by blast
qed

theorem build_failure_propagation_witness:
  "build failingRun = Rejected ''out of memory''
   \<and> build throwingRun = Rejected ''invalid argument''
   \<and> build lateFailingRun = Rejected ''write failed''
   \<and> build cleanRun = Resolved ''%PDF-1.3%%EOF''"
proof -
  have "build cleanRun = Resolved ''%PDF-1.3%%EOF''"
    by (simp add: build_outcome cleanRun_def failuresOf_def)
  then show ?thesis
    using build_failure_propagation [of failingRun "[]" "''out of memory''"]
      build_failure_propagation [of throwingRun "[]" "''invalid argument''"]
      build_failure_propagation [of lateFailingRun "[]" "''write failed''"]
    by (simp add: failingRun_def throwingRun_def lateFailingRun_def failuresOf_def)
qed

end
